theory Spec2Isabelle
  imports Main
begin

text \<open>
  The resolver of a Docker registry client, \<^verbatim>\<open>core/remotes/docker/resolver.go\<close>: the retry
  engine of a request (\<open>do\<close>, \<open>retryRequest\<close>, \<open>doWithRetriesInner\<close>), the building of
  requests (\<open>base_request\<close>, \<open>addNamespace\<close>) and \<open>Resolve\<close> with its loops over paths
  and hosts. Functions return what the Go functions return; a function that sends
  requests also takes and returns the number of requests started so far, which is the
  only state that the outside world is given here.
\<close>

section \<open>Errors\<close>

text \<open>
  Go error values. \<open>Wrapped msg err\<close> is \<^verbatim>\<open>fmt.Errorf\<close> with one \<^verbatim>\<open>%w\<close> verb: \<open>msg\<close> is
  the formatted text around the wrapped error. \<open>External\<close> stands for an error value made
  outside this file (transport, TLS, URL parsing, digest validation, body read);
  \<open>Panic\<close> for a run-time panic.
\<close>

datatype error =
    ErrInvalidAuthorization
  | ErrNotFound
  | ErrNotImplemented
  | ErrObjectRequired
  | ErrUnexpectedStatus int string
  | External string
  | Panic string
  | Wrapped string error

text \<open>\<^verbatim>\<open>errors.Is\<close>: the target is found along the chain of wrapped errors.\<close>

fun errors_Is :: "error \<Rightarrow> error \<Rightarrow> bool" where
  "errors_Is (Wrapped msg err) target = (if Wrapped msg err = target then True else errors_Is err target)"
| "errors_Is err target = (err = target)"

definition IsNotImplemented :: "error \<Rightarrow> bool" where
  "IsNotImplemented err = errors_Is err ErrNotImplemented"

section \<open>Configuration\<close>

definition MaxManifestSize :: int where
  "MaxManifestSize = 4 * 1048 * 1048"

section \<open>Responses, hosts and requests\<close>

text \<open>
  An \<^verbatim>\<open>http.Response\<close>, with the header fields that the resolver reads.
  \<open>Body\<close> is the result of reading the body to its end: a read error, or the bytes.
\<close>

record response =
  StatusCode :: int
  ContentLength :: int
  ContentType :: string
  DockerContentDigest :: string
  RequestURL :: string
  Body :: "error + string"

text \<open>
  The \<^verbatim>\<open>Authorizer\<close> interface. An authorizer keeps tokens of its own, so both methods
  may answer differently from one call to the next: they take the number of requests
  that the run has started so far.
\<close>

record authorizer =
  Authorize :: "nat \<Rightarrow> string \<Rightarrow> string \<Rightarrow> error option"
  AddResponses :: "nat \<Rightarrow> response list \<Rightarrow> error option"

datatype capability = HostCapabilityPull | HostCapabilityResolve | HostCapabilityPush

record registryHost =
  Host :: string
  Scheme :: string
  Path :: string
  Capabilities :: "capability set"
  Authorizer :: "authorizer option"
  isProxy :: "string \<Rightarrow> bool"
  Rewrites :: "(string \<times> string) list"

text \<open>
  The \<^verbatim>\<open>request\<close> struct. The header map is left out: it is only handed on to the HTTP
  client, whose answers are arbitrary here. \<open>body\<close> is the optional body factory, which
  may fail.
\<close>

record request =
  "method" :: string
  path :: string
  host :: registryHost
  body :: "(nat \<Rightarrow> error option) option"

text \<open>
  What the code calls and this file does not define, taken as parameters:
  \<^item> from the Go standard library, \<open>client_Do\<close> (\<^verbatim>\<open>http.Client.Do\<close>, redirects included),
    \<open>http_NewRequest\<close>, \<open>path_Join\<close>, \<open>url_ParseQuery\<close>, \<open>Values_Encode\<close>, \<open>strconv_Quote\<close>
    (the verb \<^verbatim>\<open>%q\<close>) and \<open>regexp_ReplaceAllString\<close>, which is \<open>None\<close> when the pattern does
    not compile;
  \<^item> from the digest library, \<open>digest_Validate\<close> and \<open>digest_FromReader\<close>, the digest of
    the bytes read;
  \<^item> from other packages, the media type constants \<open>MediaTypeDockerSchema1Manifest\<close>,
    \<open>MediaTypeDockerSchema2Manifest\<close> and \<open>MediaTypeImageManifest\<close>, \<open>reference_Parse\<close> with
    the methods \<open>Spec_Hostname\<close> and \<open>Spec_Digest\<close> of a parsed reference, and
    \<open>ContextWithRepositoryScope\<close>, of which only the error matters;
  \<^item> \<open>registryHosts\<close>, the function \<^verbatim>\<open>hosts\<close> that the resolver is configured with.
  \<open>client_Do t m u\<close> is the answer to the request with method \<open>m\<close> for the URL \<open>u\<close> that is
  started when \<open>t\<close> requests have been started before it, so that a server may answer
  each request differently. The method \<^verbatim>\<open>isProxy\<close> of a host is declared outside this
  file too; it is a field of \<open>registryHost\<close>.
\<close>

record spec =
  Locator :: string
  Object :: string

record env =
  client_Do :: "nat \<Rightarrow> string \<Rightarrow> string \<Rightarrow> error + response"
  http_NewRequest :: "string \<Rightarrow> string \<Rightarrow> error option"
  path_Join :: "string list \<Rightarrow> string"
  url_ParseQuery :: "string \<Rightarrow> error + (string \<times> string list) list"
  Values_Encode :: "(string \<times> string list) list \<Rightarrow> string"
  strconv_Quote :: "string \<Rightarrow> string"
  regexp_ReplaceAllString :: "string \<Rightarrow> string \<Rightarrow> string \<Rightarrow> string option"
  digest_Validate :: "string \<Rightarrow> error option"
  digest_FromReader :: "string \<Rightarrow> string"
  MediaTypeDockerSchema1Manifest :: string
  MediaTypeDockerSchema2Manifest :: string
  MediaTypeImageManifest :: string
  reference_Parse :: "string \<Rightarrow> error + spec"
  Spec_Hostname :: "spec \<Rightarrow> string"
  Spec_Digest :: "spec \<Rightarrow> string"
  ContextWithRepositoryScope :: "spec \<Rightarrow> error option"
  registryHosts :: "string \<Rightarrow> error + registryHost list"

section \<open>Strings\<close>

definition HasPrefix :: "string \<Rightarrow> string \<Rightarrow> bool" where
  "HasPrefix s p = (take (length p) s = p)"

definition HasSuffix :: "string \<Rightarrow> string \<Rightarrow> bool" where
  "HasSuffix s p = (length p \<le> length s \<and> drop (length s - length p) s = p)"

fun Contains :: "string \<Rightarrow> string \<Rightarrow> bool" where
  "Contains [] sub = (sub = [])"
| "Contains (c # cs) sub = (if HasPrefix (c # cs) sub then True else Contains cs sub)"

text \<open>\<^verbatim>\<open>strings.IndexByte\<close>: \<open>None\<close> is Go's \<open>-1\<close>.\<close>

fun IndexByte :: "string \<Rightarrow> char \<Rightarrow> nat option" where
  "IndexByte [] c = None"
| "IndexByte (x # xs) c =
     (if x = c then Some 0 else (case IndexByte xs c of None \<Rightarrow> None | Some i \<Rightarrow> Some (Suc i)))"

section \<open>The retry engine\<close>

definition authorize :: "nat \<Rightarrow> request \<Rightarrow> string \<Rightarrow> error option" where
  "authorize t r u =
     (case Authorizer (host r) of
        Some a \<Rightarrow> Authorize a t (method r) u
      | None \<Rightarrow> None)"

definition do :: "env \<Rightarrow> nat \<Rightarrow> request \<Rightarrow> error + response" where
  "do E t r =
     (let u = Scheme (host r) @ ''://'' @ Host (host r) @ path r in
      case http_NewRequest E (method r) u of
        Some err \<Rightarrow> Inl err
      | None \<Rightarrow>
          (case (case body r of None \<Rightarrow> None | Some f \<Rightarrow> f t) of
             Some err \<Rightarrow> Inl err
           | None \<Rightarrow>
               (case authorize t r u of
                  Some err \<Rightarrow> Inl (Wrapped ''failed to authorize'' err)
                | None \<Rightarrow>
                    (case client_Do E t (method r) u of
                       Inl err \<Rightarrow> Inl (Wrapped ''failed to do request'' err)
                     | Inr resp \<Rightarrow> Inr resp))))"

text \<open>
  \<open>retryRequest\<close> returns the retry flag, the error, and the request, whose method the
  405 case changes. The source indexes \<^verbatim>\<open>responses[len(responses)-1]\<close>, which panics on
  an empty slice.
\<close>

definition retryRequest ::
  "nat \<Rightarrow> request \<Rightarrow> response list \<Rightarrow> bool \<Rightarrow> bool \<times> error option \<times> request" where
  "retryRequest t r responses lastHost =
     (if length responses > 5 then (False, None, r)
      else if responses = [] then (False, Some (Panic ''index out of range''), r)
      else
        let last = responses ! (length responses - 1) in
        if StatusCode last = 401 then
          (case Authorizer (host r) of
             Some a \<Rightarrow>
               (case AddResponses a t responses of
                  None \<Rightarrow> (True, None, r)
                | Some err \<Rightarrow>
                    if \<not> IsNotImplemented err then (False, Some err, r) else (False, None, r))
           | None \<Rightarrow> (False, None, r))
        else if StatusCode last = 405 then
          (if method r = ''HEAD'' \<and> Contains (path r) ''/manifests/''
           then (True, None, r\<lparr>method := ''GET''\<rparr>)
           else (False, None, r))
        else if StatusCode last = 408 \<or> StatusCode last = 429 then (True, None, r)
        else if StatusCode last = 503 \<or> StatusCode last = 504 \<or> StatusCode last = 500 then
          (if length responses > 1
              \<and> StatusCode (responses ! (length responses - 2)) = StatusCode last
           then (False, None, r)
           else if lastHost then (True, None, r)
           else (False, None, r))
        else (False, None, r))"

text \<open>
  \<open>doWithRetriesInner\<close> returns its result and the number of requests started so far:
  every call of \<open>do\<close> counts one.
\<close>

function doWithRetriesInner ::
  "env \<Rightarrow> nat \<Rightarrow> request \<Rightarrow> response list \<Rightarrow> bool \<Rightarrow> (error + response) \<times> nat" where
  "doWithRetriesInner E t r responses lastHost =
     (case do E t r of
        Inl err \<Rightarrow> (Inl err, Suc t)
      | Inr resp \<Rightarrow>
          (case snd (retryRequest (Suc t) r (responses @ [resp]) lastHost) of
             (Some err, r') \<Rightarrow> (Inl err, Suc t)
           | (None, r') \<Rightarrow>
               if fst (retryRequest (Suc t) r (responses @ [resp]) lastHost)
               then doWithRetriesInner E (Suc t) r' (responses @ [resp]) lastHost
               else (Inr resp, Suc t)))"
  by pat_completeness auto

termination doWithRetriesInner
proof (relation "measure (\<lambda>(E, t, r, responses, lastHost). 6 - length responses)")
  show "wf (measure (\<lambda>(E, t, r, responses, lastHost). 6 - length responses))"
    by simp
next
  fix E :: env and t :: nat and r :: request and responses :: "response list"
    and lastHost :: bool and resp :: response and r' :: request
  assume retry: "fst (retryRequest (Suc t) r (responses @ [resp]) lastHost)"
  have "length (responses @ [resp]) \<le> 5"
  proof (cases "length (responses @ [resp]) > 5")
    case True
    with retry show ?thesis by (simp add: retryRequest_def)
  next
    case False
    then show ?thesis by simp
  qed
  then show "((E, Suc t, r', responses @ [resp], lastHost), (E, t, r, responses, lastHost))
       \<in> measure (\<lambda>(E, t, r, responses, lastHost). 6 - length responses)"
    by simp
qed

declare doWithRetriesInner.simps [simp del]

text \<open>
  \<open>doWithRetries\<close> as \<open>Resolve\<close> calls it, without checks to run on the response.
\<close>

definition doWithRetries :: "env \<Rightarrow> nat \<Rightarrow> request \<Rightarrow> bool \<Rightarrow> (error + response) \<times> nat" where
  "doWithRetries E t r lastHost = doWithRetriesInner E t r [] lastHost"

section \<open>Building requests\<close>

record dockerBase =
  refspec :: spec
  repository :: string
  hosts :: "registryHost list"

definition TrimPrefix :: "string \<Rightarrow> string \<Rightarrow> string" where
  "TrimPrefix s p = (if HasPrefix s p then drop (length p) s else s)"

definition base :: "env \<Rightarrow> spec \<Rightarrow> error + dockerBase" where
  "base E rs =
     (let h = Spec_Hostname E rs in
      case registryHosts E h of
        Inl err \<Rightarrow> Inl err
      | Inr hs \<Rightarrow>
          Inr \<lparr>refspec = rs, repository = TrimPrefix (Locator rs) (h @ ''/''), hosts = hs\<rparr>)"

definition resolveDockerBase :: "env \<Rightarrow> string \<Rightarrow> error + dockerBase" where
  "resolveDockerBase E ref =
     (case reference_Parse E ref of
        Inl err \<Rightarrow> Inl err
      | Inr rs \<Rightarrow> base E rs)"

definition Has :: "capability set \<Rightarrow> capability set \<Rightarrow> bool" where
  \<comment> \<open>Modelled from the spec: \<^verbatim>\<open>HostCapabilities.Has\<close> is declared outside this file; the
      capabilities are a bit set over Pull, Resolve and Push, and a host passes the filter
      when it advertises the whole required set.\<close>
  "Has c t = (t \<subseteq> c)"

definition filterHosts :: "dockerBase \<Rightarrow> capability set \<Rightarrow> registryHost list" where
  "filterHosts b caps = filter (\<lambda>h. Has (Capabilities h) caps) (hosts b)"

text \<open>
  \<open>withRewritesFromHost\<close> ranges over the map \<^verbatim>\<open>host.Rewrites\<close>; \<open>Rewrites\<close> lists its
  entries in the order of that iteration. The rewritten base is built without hosts.
\<close>

fun rewritesLoop :: "env \<Rightarrow> dockerBase \<Rightarrow> (string \<times> string) list \<Rightarrow> dockerBase" where
  "rewritesLoop E b [] = b"
| "rewritesLoop E b ((pattern, replace) # rest) =
     (case regexp_ReplaceAllString E pattern (repository b) replace of
        None \<Rightarrow> rewritesLoop E b rest
      | Some rr \<Rightarrow>
          if rr \<noteq> repository b
          then \<lparr>refspec = \<lparr>Locator = Spec_Hostname E (refspec b) @ ''/'' @ rr,
                            Object = Object (refspec b)\<rparr>,
                repository = rr, hosts = []\<rparr>
          else rewritesLoop E b rest)"

definition withRewritesFromHost :: "env \<Rightarrow> dockerBase \<Rightarrow> registryHost \<Rightarrow> dockerBase" where
  "withRewritesFromHost E b h = rewritesLoop E b (Rewrites h)"

definition base_request ::
  "env \<Rightarrow> dockerBase \<Rightarrow> registryHost \<Rightarrow> string \<Rightarrow> string list \<Rightarrow> request" where
  "base_request E b h m ps =
     (let parts = [''/'', Path h, repository b] @ ps;
          p = path_Join E parts;
          p = (if length parts > 0 \<and> HasSuffix (last parts) ''/'' then p @ ''/'' else p)
      in \<lparr>method = m, path = p, host = h, body = None\<rparr>)"

text \<open>\<^verbatim>\<open>url.Values.Add\<close> on the entries of the map.\<close>

definition Add :: "(string \<times> string list) list \<Rightarrow> string \<Rightarrow> string \<Rightarrow> (string \<times> string list) list" where
  "Add q key v =
     (if key \<in> set (map fst q)
      then map (\<lambda>(k, vs). if k = key then (k, vs @ [v]) else (k, vs)) q
      else q @ [(key, [v])])"

text \<open>
  \<open>addNamespace\<close> returns the error and the request with its new path. In the first
  branch the source first cuts \<^verbatim>\<open>r.path\<close> to \<^verbatim>\<open>r.path[:i+1]\<close> and then parses
  \<^verbatim>\<open>r.path[i+1:]\<close> of the path it has just cut.
\<close>

definition addNamespace :: "env \<Rightarrow> request \<Rightarrow> string \<Rightarrow> error option \<times> request" where
  "addNamespace E r ns =
     (if \<not> isProxy (host r) ns then (None, r)
      else
        (case (case IndexByte (path r) CHR ''?'' of
                 None \<Rightarrow> None
               | Some i \<Rightarrow> if i > 0 then Some i else None) of
           Some i \<Rightarrow>
             (let r1 = r\<lparr>path := take (i + 1) (path r)\<rparr> in
              case url_ParseQuery E (drop (i + 1) (path r1)) of
                Inl err \<Rightarrow> (Some err, r1)
              | Inr q \<Rightarrow> (None, r1\<lparr>path := path r1 @ Values_Encode E (Add q ''ns'' ns)\<rparr>))
         | None \<Rightarrow>
             (let r1 = r\<lparr>path := path r @ ''?''\<rparr> in
              (None, r1\<lparr>path := path r1 @ Values_Encode E (Add [] ''ns'' ns)\<rparr>))))"

section \<open>Resolve\<close>

definition getManifestMediaType :: "env \<Rightarrow> response \<Rightarrow> string" where
  "getManifestMediaType E resp =
     (let contentType = ContentType resp;
          contentType = (case IndexByte contentType CHR '';'' of
                           Some sp \<Rightarrow> take sp contentType
                         | None \<Rightarrow> contentType)
      in if contentType = ''text/plain'' then MediaTypeDockerSchema1Manifest E else contentType)"

definition unexpectedResponseErr :: "response \<Rightarrow> error" where
  \<comment> \<open>Modelled from the spec: \<^verbatim>\<open>unexpectedResponseErr\<close> is declared outside this file; the
      unexpected-status error carries the status code and the URL.\<close>
  "unexpectedResponseErr resp = ErrUnexpectedStatus (StatusCode resp) (RequestURL resp)"

text \<open>The verb \<^verbatim>\<open>%d\<close> of \<^verbatim>\<open>fmt\<close>.\<close>

function digits :: "int \<Rightarrow> string" where
  "digits n =
     (if n < 10 then [''0123456789'' ! nat n]
      else digits (n div 10) @ [''0123456789'' ! nat (n mod 10)])"
  by pat_completeness auto

termination digits
  by (relation "measure nat") auto

declare digits.simps [simp del]

definition itoa :: "int \<Rightarrow> string" where
  "itoa i = (if i < 0 then ''-'' @ digits (- i) else digits i)"

record descriptor =
  Digest :: string
  MediaType :: string
  Size :: int

text \<open>
  The variables that \<open>Resolve\<close> keeps from one (path, host) pair to the next. \<open>ranked\<close> is
  a history variable that the code does not have: it lists, in order, every error that
  a failed pair puts forward with its priority, whether or not it replaces \<open>firstErr\<close>.
\<close>

record rstate =
  firstErr :: "error option"
  firstErrPriority :: int
  dgst :: string
  ranked :: "(int \<times> error) list"

datatype outcome = Return "error + (string \<times> descriptor)" | Continue rstate

text \<open>
  The block that fetches the manifest with GET when the digest or the size is not known:
  the digest, the media type and the size afterwards, or the error that \<open>Resolve\<close>
  returns.
\<close>

definition fetchManifest ::
  "env \<Rightarrow> nat \<Rightarrow> dockerBase \<Rightarrow> registryHost \<Rightarrow> string list \<Rightarrow> string
     \<Rightarrow> (error + (string \<times> string \<times> int)) \<times> nat" where
  "fetchManifest E t b h u d =
     (case addNamespace E (base_request E b h ''GET'' u) (Spec_Hostname E (refspec b)) of
        (Some err, req) \<Rightarrow> (Inl err, t)
      | (None, req) \<Rightarrow>
          (case doWithRetries E t req True of
             (Inl err, t') \<Rightarrow> (Inl err, t')
           | (Inr resp, t') \<Rightarrow>
               (let contentType = getManifestMediaType E resp in
                if d \<noteq> '''' then
                  (case Body resp of
                     Inl err \<Rightarrow> (Inl err, t')
                   | Inr bytes \<Rightarrow> (Inr (d, contentType, int (length bytes)), t'))
                else if contentType = MediaTypeDockerSchema1Manifest E then
                  (Inl (Wrapped ('': media type '' @ strconv_Quote E (MediaTypeDockerSchema1Manifest E)
                          @ '' is no longer supported since containerd v2.0, please rebuild the image as ''
                          @ strconv_Quote E (MediaTypeDockerSchema2Manifest E)
                          @ '' or '' @ strconv_Quote E (MediaTypeImageManifest E))
                        ErrNotImplemented), t')
                else
                  (case Body resp of
                     Inl err \<Rightarrow> (Inl err, t')
                   | Inr bytes \<Rightarrow>
                       (Inr (digest_FromReader E bytes, contentType, int (length bytes)), t')))))"

text \<open>
  What \<open>Resolve\<close> does with the response to HEAD, from reading the size to the end of
  the GET block: the digest, the media type and the size that the size check then sees,
  or the error that \<open>Resolve\<close> returns. \<open>d0\<close> is the digest known before.
\<close>

definition acquire ::
  "env \<Rightarrow> nat \<Rightarrow> dockerBase \<Rightarrow> registryHost \<Rightarrow> string list \<Rightarrow> string \<Rightarrow> response
     \<Rightarrow> (error + (string \<times> string \<times> int)) \<times> nat" where
  "acquire E t b h u d0 resp =
     (let sz = ContentLength resp;
          contentType = getManifestMediaType E resp
      in
      case (if d0 = '''' then
              (let dgstHeader = DockerContentDigest resp in
               if dgstHeader \<noteq> '''' \<and> sz \<noteq> - 1 then
                 (case digest_Validate E dgstHeader of
                    Some err \<Rightarrow>
                      Inl (Wrapped (strconv_Quote E dgstHeader @ '' in header not a valid digest'') err)
                  | None \<Rightarrow> Inr dgstHeader)
               else Inr d0)
            else Inr d0) of
        Inl err \<Rightarrow> (Inl err, t)
      | Inr d \<Rightarrow>
          if d = '''' \<or> sz = - 1
          then fetchManifest E t b h u d
          else (Inr (d, contentType, sz), t))"

text \<open>
  One pass of the inner loop for the path \<open>u\<close> and the host \<open>h\<close> of index \<open>i\<close> among \<open>n\<close>
  hosts: \<open>Return\<close> where the source returns, \<open>Continue\<close> where it goes on to the next pair.
\<close>

definition attempt ::
  "env \<Rightarrow> string \<Rightarrow> dockerBase \<Rightarrow> string list \<Rightarrow> nat \<Rightarrow> nat \<Rightarrow> registryHost
     \<Rightarrow> rstate \<Rightarrow> nat \<Rightarrow> outcome \<times> nat" where
  "attempt E ref b0 u n i h st t =
     (let b = withRewritesFromHost E b0 h in
      case ContextWithRepositoryScope E (refspec b) of
        Some err \<Rightarrow> (Return (Inl err), t)
      | None \<Rightarrow>
      (case addNamespace E (base_request E b h ''HEAD'' u) (Spec_Hostname E (refspec b)) of
        (Some err, req) \<Rightarrow> (Return (Inl err), t)
      | (None, req) \<Rightarrow>
      (case doWithRetries E t req (int i = int n - 1) of
        (Inl err0, t') \<Rightarrow>
          (let err = (if errors_Is err0 ErrInvalidAuthorization
                      then Wrapped ''pull access denied, repository does not exist or may require authorization'' err0
                      else err0)
           in (Continue ((if firstErrPriority st < 1
                          then st\<lparr>firstErr := Some err, firstErrPriority := 1\<rparr>
                          else st)\<lparr>ranked := ranked st @ [(1, err)]\<rparr>), t'))
      | (Inr resp, t') \<Rightarrow>
          if StatusCode resp > 299 then
            (if StatusCode resp = 404 then
               (Continue ((if firstErrPriority st < 2
                           then st\<lparr>firstErr := Some (Wrapped ref ErrNotFound), firstErrPriority := 2\<rparr>
                           else st)\<lparr>ranked := ranked st @ [(2, Wrapped ref ErrNotFound)]\<rparr>), t')
             else if StatusCode resp > 399 then
               (Continue ((if firstErrPriority st < 3
                           then st\<lparr>firstErr := Some (unexpectedResponseErr resp), firstErrPriority := 3\<rparr>
                           else st)\<lparr>ranked := ranked st @ [(3, unexpectedResponseErr resp)]\<rparr>), t')
             else (Return (Inl (unexpectedResponseErr resp)), t'))
          else
            (case acquire E t' b h u (dgst st) resp of
               (Inl err, t'') \<Rightarrow> (Return (Inl err), t'')
             | (Inr (d, contentType, sz), t'') \<Rightarrow>
                 if sz > MaxManifestSize then
                   (let err = Wrapped (''rejecting '' @ itoa sz @ '' byte manifest for '' @ ref) ErrNotFound
                    in (Continue ((if firstErrPriority st < 4
                                   then st\<lparr>firstErr := Some err, firstErrPriority := 4\<rparr>
                                   else st)\<lparr>dgst := d, ranked := ranked st @ [(4, err)]\<rparr>), t''))
                 else
                   (Return (Inr (ref, \<lparr>Digest = d, MediaType = contentType, Size = sz\<rparr>)), t'')))))"

fun hostsLoop ::
  "env \<Rightarrow> string \<Rightarrow> dockerBase \<Rightarrow> string list \<Rightarrow> nat \<Rightarrow> nat \<Rightarrow> registryHost list
     \<Rightarrow> rstate \<Rightarrow> nat \<Rightarrow> outcome \<times> nat" where
  "hostsLoop E ref b u n i [] st t = (Continue st, t)"
| "hostsLoop E ref b u n i (h # hs) st t =
     (case attempt E ref b u n i h st t of
        (Return res, t') \<Rightarrow> (Return res, t')
      | (Continue st', t') \<Rightarrow> hostsLoop E ref b u n (Suc i) hs st' t')"

fun pathsLoop ::
  "env \<Rightarrow> string \<Rightarrow> dockerBase \<Rightarrow> registryHost list \<Rightarrow> string list list
     \<Rightarrow> rstate \<Rightarrow> nat \<Rightarrow> outcome \<times> nat" where
  "pathsLoop E ref b hs [] st t = (Continue st, t)"
| "pathsLoop E ref b hs (u # us) st t =
     (case hostsLoop E ref b u (length hs) 0 hs st t of
        (Return res, t') \<Rightarrow> (Return res, t')
      | (Continue st', t') \<Rightarrow> pathsLoop E ref b hs us st' t')"

text \<open>
  \<open>Resolve E t ref\<close> is the call of \<open>Resolve\<close> made when \<open>t\<close> requests have been started; it
  returns the result and the number of requests started by its end.
\<close>

definition Resolve :: "env \<Rightarrow> nat \<Rightarrow> string \<Rightarrow> (error + (string \<times> descriptor)) \<times> nat" where
  "Resolve E t ref =
     (case resolveDockerBase E ref of
        Inl err \<Rightarrow> (Inl err, t)
      | Inr b \<Rightarrow>
          if Object (refspec b) = '''' then (Inl ErrObjectRequired, t)
          else
            (let d = Spec_Digest E (refspec b) in
             case (if d \<noteq> '''' then
                     (case digest_Validate E d of
                        Some err \<Rightarrow> Inl err
                      | None \<Rightarrow> Inr ([[''manifests'', d], [''blobs'', d]], {HostCapabilityPull}))
                   else
                     Inr ([[''manifests'', Object (refspec b)]],
                          {HostCapabilityPull, HostCapabilityResolve})) of
               Inl err \<Rightarrow> (Inl err, t)
             | Inr (paths, caps) \<Rightarrow>
                 (let hs = filterHosts b caps in
                  if length hs = 0 then (Inl (Wrapped ''no resolve hosts'' ErrNotFound), t)
                  else
                    (case pathsLoop E ref b hs paths
                            \<lparr>firstErr = None, firstErrPriority = 0, dgst = d, ranked = []\<rparr> t of
                       (Return res, t') \<Rightarrow> (res, t')
                     | (Continue st, t') \<Rightarrow>
                         (case firstErr st of
                            None \<Rightarrow> (Inl (Wrapped ref ErrNotFound), t')
                          | Some err \<Rightarrow> (Inl err, t'))))))"

section \<open>Notions used by the properties\<close>

text \<open>
  \<open>head_answered E b0 u n i h t resp t1\<close>: in the pass for the path \<open>u\<close> and the host \<open>h\<close>
  started at \<open>t\<close>, the scope is attached, the HEAD request is built, and \<open>doWithRetries\<close>
  returns the response \<open>resp\<close> at \<open>t1\<close>.
\<close>

definition head_answered ::
  "env \<Rightarrow> dockerBase \<Rightarrow> string list \<Rightarrow> nat \<Rightarrow> nat \<Rightarrow> registryHost \<Rightarrow> nat \<Rightarrow> response \<Rightarrow> nat
     \<Rightarrow> bool" where
  "head_answered E b0 u n i h t resp t1 =
     (let b = withRewritesFromHost E b0 h in
      ContextWithRepositoryScope E (refspec b) = None
      \<and> (case addNamespace E (base_request E b h ''HEAD'' u) (Spec_Hostname E (refspec b)) of
           (Some err, req) \<Rightarrow> False
         | (None, req) \<Rightarrow> doWithRetries E t req (int i = int n - 1) = (Inr resp, t1)))"

text \<open>
  \<open>get_answered E b h u t resp t1\<close>: the GET request of the GET block, started at \<open>t\<close>, is
  built and \<open>doWithRetries\<close> returns the response \<open>resp\<close> at \<open>t1\<close>.
\<close>

definition get_answered ::
  "env \<Rightarrow> dockerBase \<Rightarrow> registryHost \<Rightarrow> string list \<Rightarrow> nat \<Rightarrow> response \<Rightarrow> nat \<Rightarrow> bool" where
  "get_answered E b h u t resp t1 =
     (case addNamespace E (base_request E b h ''GET'' u) (Spec_Hostname E (refspec b)) of
        (Some err, req) \<Rightarrow> False
      | (None, req) \<Rightarrow> doWithRetries E t req True = (Inr resp, t1))"

text \<open>
  What a failed pair does to the variables of \<open>Resolve\<close> when it puts the error \<open>e\<close>
  forward with priority \<open>p\<close>: the error replaces \<open>firstErr\<close> only if the priority recorded
  so far is lower.
\<close>

definition put_forward :: "int \<Rightarrow> error \<Rightarrow> rstate \<Rightarrow> rstate" where
  "put_forward p e st =
     (if firstErrPriority st < p then st\<lparr>firstErr := Some e, firstErrPriority := p\<rparr> else st)
       \<lparr>ranked := ranked st @ [(p, e)]\<rparr>"

text \<open>The highest priority in a list of ranked errors, and the first error that has it.\<close>

definition highest :: "(int \<times> error) list \<Rightarrow> int" where
  "highest T = Max (set (map fst T))"

definition selected :: "(int \<times> error) list \<Rightarrow> error option" where
  "selected T = map_option snd (find (\<lambda>pe. fst pe = highest T) T)"

text \<open>The kinds of error that go with the four priorities.\<close>

definition rejecting :: "int \<Rightarrow> string \<Rightarrow> error" where
  "rejecting sz ref = Wrapped (''rejecting '' @ itoa sz @ '' byte manifest for '' @ ref) ErrNotFound"

definition well_ranked :: "string \<Rightarrow> int \<times> error \<Rightarrow> bool" where
  "well_ranked ref pe =
     (if fst pe = 1 then True
      else if fst pe = 2 then snd pe = Wrapped ref ErrNotFound
      else if fst pe = 3 then
        (\<exists>code url. snd pe = ErrUnexpectedStatus code url \<and> code > 399 \<and> code \<noteq> 404)
      else fst pe = 4 \<and> (\<exists>sz. sz > MaxManifestSize \<and> snd pe = rejecting sz ref))"

text \<open>
  The relation between the variables of \<open>Resolve\<close> and the errors put forward so far.
\<close>

definition ranking_inv :: "rstate \<Rightarrow> bool" where
  "ranking_inv st =
     (list_all (\<lambda>pe. 1 \<le> fst pe) (ranked st)
      \<and> (if ranked st = [] then firstErr st = None \<and> firstErrPriority st = 0
         else firstErrPriority st = highest (ranked st) \<and> firstErr st = selected (ranked st)))"

text \<open>
  \<open>head_failed E b0 u n i h t err t1\<close>: in the pass for the path \<open>u\<close> and the host \<open>h\<close> started
  at \<open>t\<close>, the scope is attached, the HEAD request is built, and \<open>doWithRetries\<close> returns
  the error \<open>err\<close> at \<open>t1\<close>.
\<close>

definition head_failed ::
  "env \<Rightarrow> dockerBase \<Rightarrow> string list \<Rightarrow> nat \<Rightarrow> nat \<Rightarrow> registryHost \<Rightarrow> nat \<Rightarrow> error \<Rightarrow> nat
     \<Rightarrow> bool" where
  "head_failed E b0 u n i h t err t1 =
     (let b = withRewritesFromHost E b0 h in
      ContextWithRepositoryScope E (refspec b) = None
      \<and> (case addNamespace E (base_request E b h ''HEAD'' u) (Spec_Hostname E (refspec b)) of
           (Some e, req) \<Rightarrow> False
         | (None, req) \<Rightarrow> doWithRetries E t req (int i = int n - 1) = (Inl err, t1)))"

text \<open>The error for a schema 1 manifest.\<close>

definition schema1_error :: "env \<Rightarrow> error" where
  "schema1_error E =
     Wrapped ('': media type '' @ strconv_Quote E (MediaTypeDockerSchema1Manifest E)
              @ '' is no longer supported since containerd v2.0, please rebuild the image as ''
              @ strconv_Quote E (MediaTypeDockerSchema2Manifest E)
              @ '' or '' @ strconv_Quote E (MediaTypeImageManifest E))
       ErrNotImplemented"

text \<open>
  \<open>enters_loops E ref b us hs\<close>: the call of \<open>Resolve\<close> for \<open>ref\<close> reaches its loops, with the
  base \<open>b\<close>, the paths \<open>us\<close> and the hosts \<open>hs\<close>.
\<close>

definition enters_loops ::
  "env \<Rightarrow> string \<Rightarrow> dockerBase \<Rightarrow> string list list \<Rightarrow> registryHost list \<Rightarrow> bool" where
  "enters_loops E ref b us hs =
     (resolveDockerBase E ref = Inr b
      \<and> Object (refspec b) \<noteq> ''''
      \<and> (let d = Spec_Digest E (refspec b) in
          if d \<noteq> '''' then
            digest_Validate E d = None
            \<and> us = [[''manifests'', d], [''blobs'', d]]
            \<and> hs = filterHosts b {HostCapabilityPull}
          else
            us = [[''manifests'', Object (refspec b)]]
            \<and> hs = filterHosts b {HostCapabilityPull, HostCapabilityResolve})
      \<and> hs \<noteq> [])"

text \<open>The variables of \<open>Resolve\<close> when it enters its loops with the digest \<open>d\<close>.\<close>

definition initial :: "string \<Rightarrow> rstate" where
  "initial d = \<lparr>firstErr = None, firstErrPriority = 0, dgst = d, ranked = []\<rparr>"

section \<open>The error ranking as the specification words it\<close>

text \<open>
  The ranking of errors, written after the specification and not after the code: every
  pass over a (path, host) pair has one of three results, the failures are collected
  as pairs of a priority and an error, and when all pairs have failed the first error
  of the highest priority is returned. Nothing here keeps a recorded error or compares
  priorities on the way.

  The result of one pass, started with the digest \<open>d\<close> known so far:
  \<^item> \<open>Failed 1\<close>: the HEAD request failed, at the level of the request (transport,
    authorization); an authorization failure is wrapped as access denied;
  \<^item> \<open>Failed 2\<close>: HEAD was answered 404;
  \<^item> \<open>Failed 3\<close>: HEAD was answered with another status above 399;
  \<^item> \<open>Failed 4\<close>: the size arrived at is above \<open>MaxManifestSize\<close>;
  \<^item> \<open>Stopped\<close>: the pass ends the whole resolution with an error: the scope or the
    request cannot be built, HEAD was answered with a status from 300 to 399, the digest
    header is no digest, or the GET block failed (request, body, schema 1);
  \<^item> \<open>Found\<close>: the descriptor.
  A failure carries the digest known after the pass.
\<close>

datatype pass_result = Failed int error string | Stopped error | Found descriptor

definition spec_pass ::
  "env \<Rightarrow> string \<Rightarrow> dockerBase \<Rightarrow> string list \<Rightarrow> nat \<Rightarrow> nat \<Rightarrow> registryHost \<Rightarrow> string \<Rightarrow> nat
     \<Rightarrow> pass_result \<times> nat" where
  "spec_pass E ref b0 u n i h d t =
     (let b = withRewritesFromHost E b0 h in
      case ContextWithRepositoryScope E (refspec b) of
        Some err \<Rightarrow> (Stopped err, t)
      | None \<Rightarrow>
      (case addNamespace E (base_request E b h ''HEAD'' u) (Spec_Hostname E (refspec b)) of
        (Some err, req) \<Rightarrow> (Stopped err, t)
      | (None, req) \<Rightarrow>
      (case doWithRetries E t req (Suc i = n) of
        (Inl err, t1) \<Rightarrow>
          (Failed 1
             (if errors_Is err ErrInvalidAuthorization
              then Wrapped ''pull access denied, repository does not exist or may require authorization'' err
              else err) d, t1)
      | (Inr resp, t1) \<Rightarrow>
          if StatusCode resp = 404 then (Failed 2 (Wrapped ref ErrNotFound) d, t1)
          else if StatusCode resp \<ge> 400 then (Failed 3 (unexpectedResponseErr resp) d, t1)
          else if StatusCode resp \<ge> 300 then (Stopped (unexpectedResponseErr resp), t1)
          else
            (case acquire E t1 b h u d resp of
               (Inl err, t2) \<Rightarrow> (Stopped err, t2)
             | (Inr (d', mediaType, sz), t2) \<Rightarrow>
                 if sz > MaxManifestSize then (Failed 4 (rejecting sz ref) d', t2)
                 else (Found \<lparr>Digest = d', MediaType = mediaType, Size = sz\<rparr>, t2)))))"

text \<open>
  The passes over the hosts for one path and over the paths: the resolution ends with
  the first pass that stops or finds, and otherwise the failures are collected in
  order.
\<close>

datatype run_result = Ended "error + (string \<times> descriptor)" | Failures string "(int \<times> error) list"

fun spec_hosts ::
  "env \<Rightarrow> string \<Rightarrow> dockerBase \<Rightarrow> string list \<Rightarrow> nat \<Rightarrow> nat \<Rightarrow> registryHost list \<Rightarrow> string
     \<Rightarrow> (int \<times> error) list \<Rightarrow> nat \<Rightarrow> run_result \<times> nat" where
  "spec_hosts E ref b u n i [] d fs t = (Failures d fs, t)"
| "spec_hosts E ref b u n i (h # hs) d fs t =
     (case spec_pass E ref b u n i h d t of
        (Failed p e d', t') \<Rightarrow> spec_hosts E ref b u n (Suc i) hs d' (fs @ [(p, e)]) t'
      | (Stopped err, t') \<Rightarrow> (Ended (Inl err), t')
      | (Found desc, t') \<Rightarrow> (Ended (Inr (ref, desc)), t'))"

fun spec_paths ::
  "env \<Rightarrow> string \<Rightarrow> dockerBase \<Rightarrow> registryHost list \<Rightarrow> string list list \<Rightarrow> string
     \<Rightarrow> (int \<times> error) list \<Rightarrow> nat \<Rightarrow> run_result \<times> nat" where
  "spec_paths E ref b hs [] d fs t = (Failures d fs, t)"
| "spec_paths E ref b hs (u # us) d fs t =
     (case spec_hosts E ref b u (length hs) 0 hs d fs t of
        (Ended res, t') \<Rightarrow> (Ended res, t')
      | (Failures d' fs', t') \<Rightarrow> spec_paths E ref b hs us d' fs' t')"

definition spec_Resolve ::
  "env \<Rightarrow> string \<Rightarrow> dockerBase \<Rightarrow> string list list \<Rightarrow> registryHost list \<Rightarrow> nat
     \<Rightarrow> (error + (string \<times> descriptor)) \<times> nat" where
  "spec_Resolve E ref b us hs t =
     (case spec_paths E ref b hs us (Spec_Digest E (refspec b)) [] t of
        (Ended res, t') \<Rightarrow> (res, t')
      | (Failures d fs, t') \<Rightarrow>
          (case selected fs of
             Some err \<Rightarrow> (Inl err, t')
           | None \<Rightarrow> (Inl (Wrapped ref ErrNotFound), t')))"

section \<open>A concrete environment\<close>

text \<open>
  An environment on which the definitions can be run. Its library functions agree with
  Go's on the inputs used below: paths without \<^verbatim>\<open>.\<close> and \<^verbatim>\<open>..\<close>, query strings of unreserved
  characters with their keys in order, references without a port. \<open>ex_FromReader\<close> stands
  in for SHA-256: only that it depends on the bytes alone is used.
\<close>

fun splitOn :: "char \<Rightarrow> string \<Rightarrow> string list" where
  "splitOn c [] = [[]]"
| "splitOn c (x # xs) =
     (if x = c then [] # splitOn c xs
      else (case splitOn c xs of [] \<Rightarrow> [[x]] | w # ws \<Rightarrow> (x # w) # ws))"

definition ex_Join :: "string list \<Rightarrow> string" where
  "ex_Join parts =
     (let segs = filter (\<lambda>w. w \<noteq> []) (concat (map (splitOn CHR ''/'') parts))
      in if segs = [] then ''/'' else concat (map (\<lambda>w. ''/'' @ w) segs))"

definition ex_ParseQuery :: "string \<Rightarrow> error + (string \<times> string list) list" where
  "ex_ParseQuery s =
     Inr (foldl (\<lambda>q kv. case IndexByte kv CHR ''='' of
                          None \<Rightarrow> Add q kv []
                        | Some i \<Rightarrow> Add q (take i kv) (drop (Suc i) kv))
            [] (filter (\<lambda>w. w \<noteq> []) (splitOn CHR ''&'' s)))"

definition ex_Encode :: "(string \<times> string list) list \<Rightarrow> string" where
  "ex_Encode q =
     (case concat (map (\<lambda>(k, vs). map (\<lambda>v. k @ ''='' @ v) vs) q) of
        [] \<Rightarrow> []
      | w # ws \<Rightarrow> w @ concat (map (\<lambda>x. ''&'' @ x) ws))"

definition ex_Validate :: "string \<Rightarrow> error option" where
  "ex_Validate d =
     (if HasPrefix d ''sha256:'' then None else Some (External ''invalid checksum digest format''))"

definition ex_FromReader :: "string \<Rightarrow> string" where
  "ex_FromReader bytes = ''sha256:'' @ bytes"

definition ex_Parse :: "string \<Rightarrow> error + spec" where
  "ex_Parse ref =
     (case IndexByte ref CHR ''@'' of
        Some i \<Rightarrow> Inr \<lparr>Locator = take i ref, Object = drop i ref\<rparr>
      | None \<Rightarrow>
          (case IndexByte ref CHR '':'' of
             Some i \<Rightarrow> Inr \<lparr>Locator = take i ref, Object = drop (Suc i) ref\<rparr>
           | None \<Rightarrow> Inr \<lparr>Locator = ref, Object = []\<rparr>))"

definition ex_Hostname :: "spec \<Rightarrow> string" where
  "ex_Hostname rs =
     (case IndexByte (Locator rs) CHR ''/'' of
        None \<Rightarrow> Locator rs
      | Some i \<Rightarrow> take i (Locator rs))"

definition ex_Digest :: "spec \<Rightarrow> string" where
  "ex_Digest rs =
     (case IndexByte (Object rs) CHR ''@'' of
        None \<Rightarrow> []
      | Some i \<Rightarrow> drop (Suc i) (Object rs))"

definition ex_env ::
  "(nat \<Rightarrow> string \<Rightarrow> string \<Rightarrow> error + response) \<Rightarrow> registryHost list \<Rightarrow> env" where
  "ex_env net hs =
     \<lparr>client_Do = net,
      http_NewRequest = (\<lambda>m u. None),
      path_Join = ex_Join,
      url_ParseQuery = ex_ParseQuery,
      Values_Encode = ex_Encode,
      strconv_Quote = (\<lambda>s. [CHR 0x22] @ s @ [CHR 0x22]),
      regexp_ReplaceAllString = (\<lambda>pattern s repl. Some s),
      digest_Validate = ex_Validate,
      digest_FromReader = ex_FromReader,
      MediaTypeDockerSchema1Manifest = ''application/vnd.docker.distribution.manifest.v1+prettyjws'',
      MediaTypeDockerSchema2Manifest = ''application/vnd.docker.distribution.manifest.v2+json'',
      MediaTypeImageManifest = ''application/vnd.oci.image.manifest.v1+json'',
      reference_Parse = ex_Parse,
      Spec_Hostname = ex_Hostname,
      Spec_Digest = ex_Digest,
      ContextWithRepositoryScope = (\<lambda>rs. None),
      registryHosts = (\<lambda>ns. Inr hs)\<rparr>"

text \<open>A host without authorizer that is no proxy, and a response with nothing but a status.\<close>

definition ex_host :: "string \<Rightarrow> registryHost" where
  "ex_host name =
     \<lparr>Host = name, Scheme = ''https'', Path = ''/v2'',
      Capabilities = {HostCapabilityPull, HostCapabilityResolve},
      Authorizer = None, isProxy = (\<lambda>ns. False), Rewrites = []\<rparr>"

definition ex_status :: "int \<Rightarrow> response" where
  "ex_status code =
     \<lparr>StatusCode = code, ContentLength = 0, ContentType = [], DockerContentDigest = [],
      RequestURL = [], Body = Inr []\<rparr>"

definition ex_manifest :: "int \<Rightarrow> string \<Rightarrow> string \<Rightarrow> response" where
  "ex_manifest len hdr bytes =
     \<lparr>StatusCode = 200, ContentLength = len,
      ContentType = ''application/vnd.oci.image.manifest.v1+json'',
      DockerContentDigest = hdr, RequestURL = [], Body = Inr bytes\<rparr>"

definition ex_head :: request where
  "ex_head = \<lparr>method = ''HEAD'', path = ''/v2/app/manifests/v1'', host = ex_host ''a.example'',
              body = None\<rparr>"

definition net_always :: "int \<Rightarrow> nat \<Rightarrow> string \<Rightarrow> string \<Rightarrow> error + response" where
  "net_always code t m u = Inr (ex_status code)"

text \<open>
  Servers. Each is the function \<open>client_Do\<close> of an environment: the answer to the request
  with method \<open>m\<close> for the URL \<open>u\<close>. The hosts are \<open>a.example\<close> and \<open>b.example\<close>.
\<close>

definition host_a :: registryHost where
  "host_a = ex_host ''a.example''"

definition host_b :: registryHost where
  "host_b = ex_host ''b.example''"

definition ex_ref :: string where
  "ex_ref = ''example.com/app:v1''"

definition ex_base :: "registryHost list \<Rightarrow> dockerBase" where
  "ex_base hs =
     \<lparr>refspec = \<lparr>Locator = ''example.com/app'', Object = ''v1''\<rparr>, repository = ''app'', hosts = hs\<rparr>"

definition ex_init :: rstate where
  "ex_init = \<lparr>firstErr = None, firstErrPriority = 0, dgst = [], ranked = []\<rparr>"

definition net_refused_500 :: "nat \<Rightarrow> string \<Rightarrow> string \<Rightarrow> error + response" where
  \<comment> \<open>\<open>a.example\<close> refuses the connection; \<open>b.example\<close> answers 500.\<close>
  "net_refused_500 t m u =
     (if HasPrefix u ''https://a.example'' then Inl (External ''connection refused'')
      else Inr (ex_status 500))"

definition net_500_reset :: "nat \<Rightarrow> string \<Rightarrow> string \<Rightarrow> error + response" where
  \<comment> \<open>\<open>a.example\<close> answers 500; \<open>b.example\<close> answers HEAD without a digest header and
      resets the connection of the GET that follows.\<close>
  "net_500_reset t m u =
     (if HasPrefix u ''https://a.example'' then Inr (ex_status 500)
      else if m = ''HEAD'' then Inr (ex_manifest 1234 [] [])
      else Inl (External ''connection reset''))"

definition net_two_oversized :: "nat \<Rightarrow> string \<Rightarrow> string \<Rightarrow> error + response" where
  \<comment> \<open>\<open>a.example\<close> reports 5 000 000 bytes, \<open>b.example\<close> 6 000 000 bytes.\<close>
  "net_two_oversized t m u =
     (if HasPrefix u ''https://a.example'' then Inr (ex_manifest 5000000 ''sha256:aaa'' [])
      else Inr (ex_manifest 6000000 ''sha256:bbb'' []))"

definition net_oversized_then_small :: "nat \<Rightarrow> string \<Rightarrow> string \<Rightarrow> error + response" where
  \<comment> \<open>\<open>a.example\<close> reports 5 000 000 bytes, \<open>b.example\<close> 100 bytes under another digest.\<close>
  "net_oversized_then_small t m u =
     (if HasPrefix u ''https://a.example'' then Inr (ex_manifest 5000000 ''sha256:aaa'' [])
      else Inr (ex_manifest 100 ''sha256:bbb'' []))"

definition net_happy :: "nat \<Rightarrow> string \<Rightarrow> string \<Rightarrow> error + response" where
  \<comment> \<open>HEAD is answered with a digest header and a length of 1234 bytes.\<close>
  "net_happy t m u = Inr (ex_manifest 1234 ''sha256:abc'' [])"

definition net_4300000 :: "nat \<Rightarrow> string \<Rightarrow> string \<Rightarrow> error + response" where
  "net_4300000 t m u = Inr (ex_manifest 4300000 ''sha256:abc'' [])"

definition net_unknown_size :: "nat \<Rightarrow> string \<Rightarrow> string \<Rightarrow> error + response" where
  \<comment> \<open>HEAD is answered with the digest header \<open>sha256:aaa\<close> and no length; the body sent
      for GET is \<open>xyz\<close>.\<close>
  "net_unknown_size t m u =
     (if m = ''HEAD'' then Inr (ex_manifest (- 1) ''sha256:aaa'' [])
      else Inr (ex_manifest 3 ''sha256:aaa'' ''xyz''))"

definition net_bad_header :: "nat \<Rightarrow> string \<Rightarrow> string \<Rightarrow> error + response" where
  \<comment> \<open>HEAD is answered with a digest header that is no digest.\<close>
  "net_bad_header t m u = Inr (ex_manifest 1234 ''latest'' [])"

definition ex_plain :: response where
  "ex_plain = (ex_manifest 2 [] ''{}'')\<lparr>ContentType := ''text/plain; charset=utf-8''\<rparr>"

definition net_schema1 :: "nat \<Rightarrow> string \<Rightarrow> string \<Rightarrow> error + response" where
  \<comment> \<open>\<open>a.example\<close> serves \<open>text/plain\<close> without a digest header; \<open>b.example\<close> would answer
      HEAD with a digest header.\<close>
  "net_schema1 t m u =
     (if HasPrefix u ''https://a.example'' then Inr ex_plain
      else Inr (ex_manifest 1234 ''sha256:abc'' []))"

definition net_404_schema1 :: "nat \<Rightarrow> string \<Rightarrow> string \<Rightarrow> error + response" where
  \<comment> \<open>\<open>a.example\<close> serves \<open>text/plain\<close> without a digest header; \<open>b.example\<close> answers 404.\<close>
  "net_404_schema1 t m u =
     (if HasPrefix u ''https://a.example'' then Inr ex_plain else Inr (ex_status 404))"

definition net_500_401 :: "nat \<Rightarrow> string \<Rightarrow> string \<Rightarrow> error + response" where
  "net_500_401 t m u =
     (if HasPrefix u ''https://a.example'' then Inr (ex_status 500) else Inr (ex_status 401))"

definition net_get_401 :: "nat \<Rightarrow> string \<Rightarrow> string \<Rightarrow> error + response" where
  \<comment> \<open>HEAD is answered without a digest header; GET is answered 401 with a body.\<close>
  "net_get_401 t m u =
     (if m = ''HEAD'' then Inr (ex_manifest 1234 [] [])
      else Inr ((ex_status 401)\<lparr>ContentType := ''application/json'', Body := Inr ''denied''\<rparr>))"

definition net_blob_fallback :: "nat \<Rightarrow> string \<Rightarrow> string \<Rightarrow> error + response" where
  \<comment> \<open>404 under \<open>/manifests/\<close>, 500 bytes under \<open>/blobs/\<close>.\<close>
  "net_blob_fallback t m u =
     (if Contains u ''/manifests/'' then Inr (ex_status 404)
      else Inr ((ex_manifest 500 [] [])\<lparr>ContentType := ''application/octet-stream''\<rparr>))"

definition ex_mirror :: registryHost where
  "ex_mirror = (ex_host ''mirror.example'')\<lparr>isProxy := (\<lambda>ns. ns \<noteq> ''mirror.example'')\<rparr>"

section \<open>Properties of the configuration\<close>

text \<open>
  C2. The claim is that \<open>MaxManifestSize\<close> is exactly 4 194 304 bytes, which is 4 MiB. The
  constant of the code is the product \<open>4 * 1048 * 1048\<close>, which is 4 393 216.
\<close>

theorem MaxManifestSize_value:
  "MaxManifestSize = 4393216 \<and> MaxManifestSize \<noteq> 4194304 \<and> (4194304 :: int) = 4 * 1024 * 1024"
  by (simp add: MaxManifestSize_def)

section \<open>Properties of the retry engine\<close>

lemma retryRequest_cap:
  "length responses > 5 \<Longrightarrow> retryRequest t r responses lastHost = (False, None, r)"
  by (simp add: retryRequest_def)

lemma retryRequest_retry_le:
  "fst (retryRequest t r responses lastHost) \<Longrightarrow> length responses \<le> 5"
  by (cases "length responses > 5") (simp_all add: retryRequest_def)




lemma retryRequest_502:
  "StatusCode resp = 502 \<Longrightarrow> retryRequest t r (prev @ [resp]) lastHost = (False, None, r)"
  by (simp add: retryRequest_def Let_def)

lemma doWithRetriesInner_clock:
  "snd (doWithRetriesInner E t r responses lastHost) \<le> Suc t + (5 - length responses)
   \<and> Suc t \<le> snd (doWithRetriesInner E t r responses lastHost)"
proof (induction E t r responses lastHost rule: doWithRetriesInner.induct)
  case (1 E t r responses lastHost)
  show ?case
  proof (cases "do E t r")
    case (Inl err)
    then show ?thesis by (simp add: doWithRetriesInner.simps)
  next
    case (Inr resp)
    obtain retry err r' where rr:
      "retryRequest (Suc t) r (responses @ [resp]) lastHost = (retry, err, r')"
      by (cases "retryRequest (Suc t) r (responses @ [resp]) lastHost") auto
    show ?thesis
    proof (cases err)
      case (Some e)
      with Inr rr show ?thesis by (simp add: doWithRetriesInner.simps)
    next
      case None
      show ?thesis
      proof (cases retry)
        case False
        with Inr rr None show ?thesis by (simp add: doWithRetriesInner.simps)
      next
        case True
        have len: "length (responses @ [resp]) \<le> 5"
          using retryRequest_retry_le [of "Suc t" r "responses @ [resp]" lastHost] rr True
          by simp
        have ih: "snd (doWithRetriesInner E (Suc t) r' (responses @ [resp]) lastHost)
                     \<le> Suc (Suc t) + (5 - length (responses @ [resp]))
                  \<and> Suc (Suc t) \<le> snd (doWithRetriesInner E (Suc t) r' (responses @ [resp]) lastHost)"
          using "1.IH" Inr rr None True by simp
        have eq: "doWithRetriesInner E t r responses lastHost
                    = doWithRetriesInner E (Suc t) r' (responses @ [resp]) lastHost"
          using Inr rr None True by (simp add: doWithRetriesInner.simps [of E t r])
        from len have len4: "length responses \<le> 4" by simp
        from ih have ih': "snd (doWithRetriesInner E (Suc t) r' (responses @ [resp]) lastHost)
                     \<le> Suc (Suc t) + (5 - Suc (length responses))
                  \<and> Suc (Suc t) \<le> snd (doWithRetriesInner E (Suc t) r' (responses @ [resp]) lastHost)"
          by simp
        from ih' len4 show ?thesis unfolding eq by arith
      qed
    qed
  qed
qed

text \<open>
  C6. \<open>doWithRetriesInner\<close> is a total function: its recursion is accepted with the
  measure \<open>6 - length responses\<close>, so it returns on every input. The counter of requests
  goes up by one with every call of \<open>do\<close>; a call started at \<open>t\<close> ends with a counter
  between \<open>t + 1\<close> and \<open>t + 6\<close>, whatever the statuses, the authorizer and the responses
  passed in: at most six attempts, the first and at most five retries.
\<close>

theorem doWithRetriesInner_attempts:
  "Suc t \<le> snd (doWithRetriesInner E t r responses lastHost)
   \<and> snd (doWithRetriesInner E t r responses lastHost) \<le> t + 6"
  using doWithRetriesInner_clock [of E t r responses lastHost] by arith

theorem doWithRetriesInner_attempts_witness:
  "Suc 0 \<le> snd (doWithRetriesInner (ex_env (net_always 429) []) 0 ex_head [] True)
   \<and> snd (doWithRetriesInner (ex_env (net_always 429) []) 0 ex_head [] True) \<le> 0 + 6"
  using doWithRetriesInner_attempts [of 0 "ex_env (net_always 429) []" ex_head "[]" True]
  by simp

text \<open>The bound is reached: a server that always answers 429 is asked six times.\<close>

lemma doWithRetriesInner_six:
  "doWithRetriesInner (ex_env (net_always 429) []) 0 ex_head [] True = (Inr (ex_status 429), 6)"
  by code_simp

lemma doWithRetries_clock:
  "doWithRetries E t r lastHost = (res, t') \<Longrightarrow> t < t'"
  using doWithRetriesInner_clock [of E t r "[]" lastHost] by (simp add: doWithRetries_def)

text \<open>
  With the constant of the code, a manifest of 4 300 000 bytes, which is above 4 MiB,
  is resolved.
\<close>

lemma Resolve_accepts_4300000:
  "Resolve (ex_env net_4300000 [host_a]) 0 ex_ref =
     (Inr (ex_ref, \<lparr>Digest = ''sha256:abc'',
                    MediaType = ''application/vnd.oci.image.manifest.v1+json'',
                    Size = 4300000\<rparr>), 1)"
  by code_simp

section \<open>Properties of the namespace parameter\<close>

lemma addNamespace_not_proxy:
  "\<not> isProxy (host r) ns \<Longrightarrow> addNamespace E r ns = (None, r)"
  by (simp add: addNamespace_def)

lemma addNamespace_no_query:
  assumes "isProxy (host r) ns" and "IndexByte (path r) CHR ''?'' = None"
  shows "addNamespace E r ns =
           (None, r\<lparr>path := path r @ ''?'' @ Values_Encode E [(''ns'', [ns])]\<rparr>)"
  using assms by (simp add: addNamespace_def Let_def Add_def)

text \<open>
  When the path has a query string, the library is asked to parse the empty string, and
  what follows the question mark is cut off: the result does not depend on it.
\<close>

lemma addNamespace_existing_query:
  assumes "isProxy (host r) ns" and "IndexByte (path r) CHR ''?'' = Some i" and "0 < i"
  shows "addNamespace E r ns =
           (case url_ParseQuery E [] of
              Inl err \<Rightarrow> (Some err, r\<lparr>path := take (Suc i) (path r)\<rparr>)
            | Inr q \<Rightarrow>
                (None, r\<lparr>path := take (Suc i) (path r) @ Values_Encode E (Add q ''ns'' ns)\<rparr>))"
  using assms by (simp add: addNamespace_def Let_def split: sum.splits)

text \<open>
  C9. The claim is that \<open>addNamespace\<close> keeps a query string that the path already has
  beside the added \<open>ns\<close> parameter. For the path \<open>/v2/app/manifests/v1?a=b\<close>, a host that
  is a proxy for \<open>example.com\<close>, and a library that parses \<open>a=b\<close> and encodes it back
  with \<open>ns\<close> added, the code returns the path \<open>/v2/app/manifests/v1?ns=example.com\<close>:
  the parameter \<open>a=b\<close> is lost.
\<close>

theorem addNamespace_drops_query:
  "isProxy ex_mirror ''example.com''
   \<and> ex_ParseQuery ''a=b'' = Inr [(''a'', [''b''])]
   \<and> ex_Encode (Add [(''a'', [''b''])] ''ns'' ''example.com'') = ''a=b&ns=example.com''
   \<and> fst (addNamespace (ex_env net_happy [])
          \<lparr>method = ''GET'', path = ''/v2/app/manifests/v1?a=b'', host = ex_mirror, body = None\<rparr>
          ''example.com'') = None
   \<and> path (snd (addNamespace (ex_env net_happy [])
          \<lparr>method = ''GET'', path = ''/v2/app/manifests/v1?a=b'', host = ex_mirror, body = None\<rparr>
          ''example.com'')) = ''/v2/app/manifests/v1?ns=example.com''"
  by code_simp

text \<open>The method of a request has no part in \<open>addNamespace\<close>.\<close>

lemma base_request_method:
  "base_request E b h m' u = (base_request E b h m u)\<lparr>method := m'\<rparr>"
  by (simp add: base_request_def Let_def)

lemma addNamespace_set_method:
  "addNamespace E (r\<lparr>method := m'\<rparr>) ns =
     (fst (addNamespace E r ns), (snd (addNamespace E r ns))\<lparr>method := m'\<rparr>)"
proof (cases "isProxy (host r) ns")
  case False
  then show ?thesis by (simp add: addNamespace_def)
next
  case True
  show ?thesis
  proof (cases "IndexByte (path r) CHR ''?''")
    case None
    with True show ?thesis by (simp add: addNamespace_def Let_def)
  next
    case (Some i)
    show ?thesis
    proof (cases "url_ParseQuery E (drop (i + 1) (take (i + 1) (path r)))")
      case (Inl err)
      with True Some show ?thesis by (simp add: addNamespace_def Let_def)
    next
      case (Inr q)
      with True Some show ?thesis by (simp add: addNamespace_def Let_def)
    qed
  qed
qed

lemma addNamespace_method:
  "addNamespace E (base_request E b h m u) ns = (e, r)
     \<Longrightarrow> addNamespace E (base_request E b h m' u) ns = (e, r\<lparr>method := m'\<rparr>)"
  using addNamespace_set_method [where E = E and r = "base_request E b h m u" and m' = m' and ns = ns]
  by (simp add: base_request_method [where m = m and m' = m'])

section \<open>Properties of one pass of the loop\<close>

lemma fetchManifest_known_digest:
  "fetchManifest E t b h u d = (Inr (d', ct, sz), t') \<Longrightarrow> d \<noteq> [] \<Longrightarrow> d' = d"
  by (auto simp add: fetchManifest_def Let_def split: prod.splits option.splits sum.splits if_splits)

lemma acquire_known_digest:
  "acquire E t b h u d0 resp = (Inr (d, ct, sz), t') \<Longrightarrow> d0 \<noteq> [] \<Longrightarrow> d = d0"
  by (auto simp add: acquire_def Let_def dest: fetchManifest_known_digest split: if_splits)

lemma attempt_Return_size:
  "attempt E ref b u n i h st t = (Return (Inr (x, desc)), t') \<Longrightarrow> Size desc \<le> MaxManifestSize"
  by (auto simp add: attempt_def Let_def split: prod.splits option.splits sum.splits if_splits)

lemma attempt_Return_digest:
  "attempt E ref b u n i h st t = (Return (Inr (x, desc)), t') \<Longrightarrow> dgst st \<noteq> []
     \<Longrightarrow> Digest desc = dgst st"
  by (auto simp add: attempt_def Let_def dest: acquire_known_digest
      split: prod.splits option.splits sum.splits if_splits)

lemma attempt_Continue_dgst:
  "attempt E ref b u n i h st t = (Continue st', t') \<Longrightarrow> dgst st \<noteq> []
     \<Longrightarrow> dgst st' = dgst st"
  by (auto simp add: attempt_def Let_def dest: acquire_known_digest
      split: prod.splits option.splits sum.splits if_splits)

lemma head_answeredD:
  assumes "head_answered E b0 u n i h t resp t1"
  obtains req where
    "ContextWithRepositoryScope E (refspec (withRewritesFromHost E b0 h)) = None"
    "addNamespace E (base_request E (withRewritesFromHost E b0 h) h ''HEAD'' u)
        (Spec_Hostname E (refspec (withRewritesFromHost E b0 h))) = (None, req)"
    "doWithRetries E t req (int i = int n - 1) = (Inr resp, t1)"
  using assms
  by (auto simp add: head_answered_def Let_def split: prod.splits option.splits)

text \<open>What a pass does once the HEAD request is answered.\<close>

lemma attempt_head_answered:
  assumes "head_answered E b0 u n i h t resp t1"
  shows "attempt E ref b0 u n i h st t =
     (if StatusCode resp > 299 then
        (if StatusCode resp = 404 then (Continue (put_forward 2 (Wrapped ref ErrNotFound) st), t1)
         else if StatusCode resp > 399 then (Continue (put_forward 3 (unexpectedResponseErr resp) st), t1)
         else (Return (Inl (unexpectedResponseErr resp)), t1))
      else
        (case acquire E t1 (withRewritesFromHost E b0 h) h u (dgst st) resp of
           (Inl err, t2) \<Rightarrow> (Return (Inl err), t2)
         | (Inr (d, ct, sz), t2) \<Rightarrow>
             if sz > MaxManifestSize
             then (Continue ((put_forward 4 (rejecting sz ref) st)\<lparr>dgst := d\<rparr>), t2)
             else (Return (Inr (ref, \<lparr>Digest = d, MediaType = ct, Size = sz\<rparr>)), t2)))"
proof -
  from assms obtain req where
    sc: "ContextWithRepositoryScope E (refspec (withRewritesFromHost E b0 h)) = None"
    and an: "addNamespace E (base_request E (withRewritesFromHost E b0 h) h ''HEAD'' u)
        (Spec_Hostname E (refspec (withRewritesFromHost E b0 h))) = (None, req)"
    and dw: "doWithRetries E t req (int i = int n - 1) = (Inr resp, t1)"
    by (rule head_answeredD)
  show ?thesis
    unfolding attempt_def Let_def
    by (simp add: sc an dw put_forward_def rejecting_def split: prod.splits sum.splits)
qed

text \<open>What the GET block does once the GET request is answered.\<close>

lemma fetchManifest_get_answered:
  assumes "get_answered E b h u t resp t1"
  shows "fetchManifest E t b h u d =
     (if d \<noteq> [] then
        (case Body resp of
           Inl err \<Rightarrow> (Inl err, t1)
         | Inr bytes \<Rightarrow> (Inr (d, getManifestMediaType E resp, int (length bytes)), t1))
      else if getManifestMediaType E resp = MediaTypeDockerSchema1Manifest E then
        (Inl (schema1_error E), t1)
      else
        (case Body resp of
           Inl err \<Rightarrow> (Inl err, t1)
         | Inr bytes \<Rightarrow>
             (Inr (digest_FromReader E bytes, getManifestMediaType E resp, int (length bytes)), t1)))"
proof -
  from assms obtain req where
    an: "addNamespace E (base_request E b h ''GET'' u) (Spec_Hostname E (refspec b)) = (None, req)"
    and dw: "doWithRetries E t req True = (Inr resp, t1)"
    by (auto simp add: get_answered_def split: prod.splits option.splits)
  show ?thesis
    unfolding fetchManifest_def Let_def by (simp add: an dw schema1_error_def)
qed

text \<open>The GET block starts at least one request.\<close>

lemma fetchManifest_clock:
  assumes "fst (addNamespace E (base_request E b h ''GET'' u) (Spec_Hostname E (refspec b))) = None"
  shows "t < snd (fetchManifest E t b h u d)"
proof -
  obtain req where an:
    "addNamespace E (base_request E b h ''GET'' u) (Spec_Hostname E (refspec b)) = (None, req)"
    using assms
    by (cases "addNamespace E (base_request E b h ''GET'' u) (Spec_Hostname E (refspec b))") auto
  obtain res t1 where dw: "doWithRetries E t req True = (res, t1)"
    by (cases "doWithRetries E t req True") auto
  from doWithRetries_clock [OF dw] have "t < t1" .
  then show ?thesis
    unfolding fetchManifest_def Let_def
    by (cases res) (auto simp add: an dw split: sum.splits)
qed

text \<open>A pass that goes on to the next pair has put one error forward.\<close>

lemma attempt_Continue_rank:
  assumes "attempt E ref b u n i h st t = (Continue st', t')"
  shows "\<exists>p e. well_ranked ref (p, e) \<and> 1 \<le> p \<and> st' = (put_forward p e st)\<lparr>dgst := dgst st'\<rparr>"
proof (cases "ContextWithRepositoryScope E (refspec (withRewritesFromHost E b h))")
  case (Some err)
  with assms show ?thesis by (simp add: attempt_def Let_def)
next
  case None
  obtain e0 req where an: "addNamespace E (base_request E (withRewritesFromHost E b h) h ''HEAD'' u)
        (Spec_Hostname E (refspec (withRewritesFromHost E b h))) = (e0, req)"
    by (cases "addNamespace E (base_request E (withRewritesFromHost E b h) h ''HEAD'' u)
        (Spec_Hostname E (refspec (withRewritesFromHost E b h)))") auto
  show ?thesis
  proof (cases e0)
    case (Some err)
    with assms None an show ?thesis by (simp add: attempt_def Let_def)
  next
    case e0: None
    obtain res t1 where dw: "doWithRetries E t req (int i = int n - 1) = (res, t1)"
      by (cases "doWithRetries E t req (int i = int n - 1)") auto
    show ?thesis
    proof (cases res)
      case (Inl err0)
      let ?err = "if errors_Is err0 ErrInvalidAuthorization
                  then Wrapped ''pull access denied, repository does not exist or may require authorization'' err0
                  else err0"
      from assms None an e0 dw Inl have "st' = put_forward 1 ?err st"
        by (simp add: attempt_def Let_def put_forward_def)
      then have "st' = (put_forward 1 ?err st)\<lparr>dgst := dgst st'\<rparr>" by simp
      moreover have "well_ranked ref (1, ?err)" by (simp add: well_ranked_def)
      ultimately show ?thesis by (intro exI [of _ 1] exI [of _ ?err]) simp
    next
      case (Inr resp)
      with None an e0 dw have ha: "head_answered E b u n i h t resp t1"
        by (simp add: head_answered_def Let_def)
      note eq = attempt_head_answered [OF ha, of ref st]
      show ?thesis
      proof (cases "StatusCode resp > 299")
        case True
        show ?thesis
        proof (cases "StatusCode resp = 404")
          case c404: True
          with assms eq have "st' = put_forward 2 (Wrapped ref ErrNotFound) st" by simp
          then have "st' = (put_forward 2 (Wrapped ref ErrNotFound) st)\<lparr>dgst := dgst st'\<rparr>" by simp
          moreover have "well_ranked ref (2, Wrapped ref ErrNotFound)" by (simp add: well_ranked_def)
          ultimately show ?thesis by (intro exI [of _ 2] exI [of _ "Wrapped ref ErrNotFound"]) simp
        next
          case n404: False
          with assms eq True have gt: "StatusCode resp > 399"
            and "st' = put_forward 3 (unexpectedResponseErr resp) st"
            by (simp_all split: if_splits)
          then have "st' = (put_forward 3 (unexpectedResponseErr resp) st)\<lparr>dgst := dgst st'\<rparr>" by simp
          moreover have "well_ranked ref (3, unexpectedResponseErr resp)"
            using gt n404 by (simp add: well_ranked_def unexpectedResponseErr_def)
          ultimately show ?thesis
            by (intro exI [of _ 3] exI [of _ "unexpectedResponseErr resp"]) simp
        qed
      next
        case False
        obtain ares t2 where aq: "acquire E t1 (withRewritesFromHost E b h) h u (dgst st) resp = (ares, t2)"
          by (cases "acquire E t1 (withRewritesFromHost E b h) h u (dgst st) resp") auto
        show ?thesis
        proof (cases ares)
          case (Inl err)
          with assms eq False aq show ?thesis by simp
        next
          case (Inr triple)
          obtain d ct sz where tr: "triple = (d, ct, sz)" by (cases triple) auto
          with assms eq False aq Inr have big: "sz > MaxManifestSize"
            and st': "st' = (put_forward 4 (rejecting sz ref) st)\<lparr>dgst := d\<rparr>"
            by (simp_all split: if_splits)
          from st' have "st' = (put_forward 4 (rejecting sz ref) st)\<lparr>dgst := dgst st'\<rparr>" by simp
          moreover have "well_ranked ref (4, rejecting sz ref)"
            using big by (auto simp add: well_ranked_def)
          ultimately show ?thesis
            by (intro exI [of _ 4] exI [of _ "rejecting sz ref"]) simp
        qed
      qed
    qed
  qed
qed

section \<open>Properties of the loops\<close>

lemma hostsLoop_Return_size:
  "hostsLoop E ref b u n i hs st t = (Return (Inr (x, desc)), t') \<Longrightarrow> Size desc \<le> MaxManifestSize"
proof (induction hs arbitrary: i st t)
  case Nil
  then show ?case by simp
next
  case (Cons h hs)
  then show ?case
    by (auto split: prod.splits outcome.splits dest: attempt_Return_size)
qed

lemma pathsLoop_Return_size:
  "pathsLoop E ref b hs us st t = (Return (Inr (x, desc)), t') \<Longrightarrow> Size desc \<le> MaxManifestSize"
proof (induction us arbitrary: st t)
  case Nil
  then show ?case by simp
next
  case (Cons u us)
  then show ?case
    by (auto split: prod.splits outcome.splits dest: hostsLoop_Return_size)
qed

lemma hostsLoop_digest:
  "dgst st \<noteq> [] \<Longrightarrow>
     (hostsLoop E ref b u n i hs st t = (Return (Inr (x, desc)), t') \<longrightarrow> Digest desc = dgst st)
   \<and> (hostsLoop E ref b u n i hs st t = (Continue st', t') \<longrightarrow> dgst st' = dgst st)"
proof (induction hs arbitrary: i st t)
  case Nil
  then show ?case by auto
next
  case (Cons h hs)
  show ?case
  proof (cases "attempt E ref b u n i h st t")
    case (Pair out t1)
    show ?thesis
    proof (cases out)
      case (Return res)
      with Pair Cons.prems show ?thesis
        by (auto dest: attempt_Return_digest)
    next
      case (Continue st1)
      with Pair Cons.prems have d1: "dgst st1 = dgst st"
        by (auto dest: attempt_Continue_dgst)
      with Cons.prems have "dgst st1 \<noteq> []" by simp
      from Cons.IH [OF this, of "Suc i" t1] Pair Continue d1 show ?thesis by simp
    qed
  qed
qed

lemma hostsLoop_Return_digest:
  "hostsLoop E ref b u n i hs st t = (Return (Inr (x, desc)), t') \<Longrightarrow> dgst st \<noteq> []
     \<Longrightarrow> Digest desc = dgst st"
  using hostsLoop_digest by blast

lemma hostsLoop_Continue_dgst:
  "hostsLoop E ref b u n i hs st t = (Continue st', t') \<Longrightarrow> dgst st \<noteq> []
     \<Longrightarrow> dgst st' = dgst st"
  using hostsLoop_digest by blast

lemma pathsLoop_digest:
  "dgst st \<noteq> [] \<Longrightarrow>
     (pathsLoop E ref b hs us st t = (Return (Inr (x, desc)), t') \<longrightarrow> Digest desc = dgst st)
   \<and> (pathsLoop E ref b hs us st t = (Continue st', t') \<longrightarrow> dgst st' = dgst st)"
proof (induction us arbitrary: st t)
  case Nil
  then show ?case by auto
next
  case (Cons u us)
  show ?case
  proof (cases "hostsLoop E ref b u (length hs) 0 hs st t")
    case (Pair out t1)
    show ?thesis
    proof (cases out)
      case (Return res)
      with Pair Cons.prems show ?thesis
        by (auto dest: hostsLoop_Return_digest)
    next
      case (Continue st1)
      with Pair Cons.prems have d1: "dgst st1 = dgst st"
        by (auto dest: hostsLoop_Continue_dgst)
      with Cons.prems have "dgst st1 \<noteq> []" by simp
      from Cons.IH [OF this, of t1] Pair Continue d1 show ?thesis by simp
    qed
  qed
qed

lemma pathsLoop_Return_digest:
  "pathsLoop E ref b hs us st t = (Return (Inr (x, desc)), t') \<Longrightarrow> dgst st \<noteq> []
     \<Longrightarrow> Digest desc = dgst st"
  using pathsLoop_digest by blast

lemma Resolve_size_le:
  "Resolve E t ref = (Inr (x, desc), t') \<Longrightarrow> Size desc \<le> MaxManifestSize"
  by (auto simp add: Resolve_def Let_def dest: pathsLoop_Return_size
      split: sum.splits if_splits option.splits prod.splits outcome.splits)

text \<open>The variables of \<open>Resolve\<close> follow the errors put forward.\<close>

lemma find_append_list:
  "find P (xs @ ys) = (case find P xs of None \<Rightarrow> find P ys | Some x \<Rightarrow> Some x)"
  by (induction xs) auto

lemma highest_snoc:
  "T \<noteq> [] \<Longrightarrow> highest (T @ [(p, e)]) = max p (highest T)"
  by (simp add: highest_def Max_insert)

lemma highest_in:
  "T \<noteq> [] \<Longrightarrow> \<exists>e. (highest T, e) \<in> set T"
proof -
  assume "T \<noteq> []"
  then have "Max (set (map fst T)) \<in> set (map fst T)"
    by (intro Max_in) auto
  then show ?thesis by (auto simp add: highest_def)
qed

lemma highest_ge:
  "pe \<in> set T \<Longrightarrow> fst pe \<le> highest T"
  by (auto simp add: highest_def intro!: Max_ge)

lemma ranking_inv_step:
  assumes inv: "ranking_inv st" and p: "1 \<le> p"
  shows "ranking_inv ((put_forward p e st)\<lparr>dgst := d\<rparr>)"
proof (cases "ranked st = []")
  case True
  with inv p show ?thesis
    by (simp add: ranking_inv_def put_forward_def highest_def selected_def)
next
  case False
  from inv False have prio: "firstErrPriority st = highest (ranked st)"
    and err: "firstErr st = selected (ranked st)"
    and pos: "list_all (\<lambda>pe. 1 \<le> fst pe) (ranked st)"
    by (simp_all add: ranking_inv_def)
  show ?thesis
  proof (cases "highest (ranked st) < p")
    case True
    have none: "find (\<lambda>pe. fst pe = p) (ranked st) = None"
      using True highest_ge [of _ "ranked st"] by (fastforce simp add: find_None_iff)
    have "selected (ranked st @ [(p, e)]) = Some e"
      using True False none
      by (simp add: selected_def highest_snoc find_append_list max_def)
    with True False prio pos p show ?thesis
      by (simp add: ranking_inv_def put_forward_def highest_snoc max_def)
  next
    case le: False
    obtain e' where mem: "(highest (ranked st), e') \<in> set (ranked st)"
      using highest_in [OF False] by blast
    then have "find (\<lambda>pe. fst pe = highest (ranked st)) (ranked st) \<noteq> None"
      by (auto simp add: find_None_iff)
    then have "selected (ranked st @ [(p, e)]) = selected (ranked st)"
      using le False
      by (auto simp add: selected_def highest_snoc find_append_list max_def split: option.splits)
    with le False prio err pos p show ?thesis
      by (simp add: ranking_inv_def put_forward_def highest_snoc max_def)
  qed
qed

lemma attempt_ranking_inv:
  assumes "attempt E ref b u n i h st t = (Continue st', t')" and "ranking_inv st"
  shows "ranking_inv st' \<and> length (ranked st') = Suc (length (ranked st))
         \<and> (list_all (well_ranked ref) (ranked st) \<longrightarrow> list_all (well_ranked ref) (ranked st'))"
proof -
  from attempt_Continue_rank [OF assms(1)] obtain p e where
    wr: "well_ranked ref (p, e)" and p: "1 \<le> p"
    and st': "st' = (put_forward p e st)\<lparr>dgst := dgst st'\<rparr>"
    by blast
  have "ranking_inv ((put_forward p e st)\<lparr>dgst := dgst st'\<rparr>)"
    using assms(2) p by (rule ranking_inv_step)
  with st' have "ranking_inv st'" by simp
  moreover have "ranked st' = ranked st @ [(p, e)]"
    by (subst st') (simp add: put_forward_def)
  ultimately show ?thesis using wr by simp
qed

lemma hostsLoop_ranking_inv:
  assumes "hostsLoop E ref b u n i hs st t = (Continue st', t')" and "ranking_inv st"
  shows "ranking_inv st' \<and> length (ranked st') = length (ranked st) + length hs
         \<and> (list_all (well_ranked ref) (ranked st) \<longrightarrow> list_all (well_ranked ref) (ranked st'))"
  using assms
proof (induction hs arbitrary: i st t)
  case Nil
  then show ?case by simp
next
  case (Cons h hs)
  from Cons.prems(1) obtain st1 t1 where
    a: "attempt E ref b u n i h st t = (Continue st1, t1)"
    and l: "hostsLoop E ref b u n (Suc i) hs st1 t1 = (Continue st', t')"
    by (auto split: prod.splits outcome.splits)
  from attempt_ranking_inv [OF a Cons.prems(2)] Cons.IH [OF l]
  show ?case by simp
qed

lemma pathsLoop_ranking_inv:
  assumes "pathsLoop E ref b hs us st t = (Continue st', t')" and "ranking_inv st"
  shows "ranking_inv st' \<and> length (ranked st') = length (ranked st) + length us * length hs
         \<and> (list_all (well_ranked ref) (ranked st) \<longrightarrow> list_all (well_ranked ref) (ranked st'))"
  using assms
proof (induction us arbitrary: st t)
  case Nil
  then show ?case by simp
next
  case (Cons u us)
  from Cons.prems(1) obtain st1 t1 where
    a: "hostsLoop E ref b u (length hs) 0 hs st t = (Continue st1, t1)"
    and l: "pathsLoop E ref b hs us st1 t1 = (Continue st', t')"
    by (auto split: prod.splits outcome.splits)
  from hostsLoop_ranking_inv [OF a Cons.prems(2)] Cons.IH [OF l]
  show ?case by simp
qed

section \<open>Resolve against the ranking of the specification\<close>

text \<open>
  The loops of the code, which keep one recorded error and replace it when a higher
  priority comes, agree with the collection of failures: the recorded error is at every
  moment the first error of the highest priority among those collected.
\<close>

lemma Resolve_enters_loops:
  assumes "enters_loops E ref b us hs"
  shows "Resolve E t ref =
     (case pathsLoop E ref b hs us (initial (Spec_Digest E (refspec b))) t of
        (Return res, t') \<Rightarrow> (res, t')
      | (Continue st, t') \<Rightarrow>
          (case firstErr st of
             None \<Rightarrow> (Inl (Wrapped ref ErrNotFound), t')
           | Some err \<Rightarrow> (Inl err, t')))"
proof -
  from assms have rb: "resolveDockerBase E ref = Inr b" and ob: "Object (refspec b) \<noteq> []"
    and ne: "hs \<noteq> []"
    by (simp_all add: enters_loops_def)
  show ?thesis
  proof (cases "Spec_Digest E (refspec b) = []")
    case True
    with assms have us: "us = [[''manifests'', Object (refspec b)]]"
      and hs: "filterHosts b {HostCapabilityPull, HostCapabilityResolve} = hs"
      by (simp_all add: enters_loops_def Let_def)
    show ?thesis
      by (simp add: Resolve_def Let_def initial_def rb ob True us hs ne)
  next
    case False
    with assms have us: "us = [[''manifests'', Spec_Digest E (refspec b)], [''blobs'', Spec_Digest E (refspec b)]]"
      and hs: "filterHosts b {HostCapabilityPull} = hs"
      and va: "digest_Validate E (Spec_Digest E (refspec b)) = None"
      by (simp_all add: enters_loops_def Let_def)
    show ?thesis
      by (simp add: Resolve_def Let_def initial_def rb ob False us hs ne va)
  qed
qed

lemma hostsLoop_append:
  "hostsLoop E ref b u n i (hs1 @ hs2) st t =
     (case hostsLoop E ref b u n i hs1 st t of
        (Return res, t') \<Rightarrow> (Return res, t')
      | (Continue st', t') \<Rightarrow> hostsLoop E ref b u n (i + length hs1) hs2 st' t')"
  by (induction hs1 arbitrary: i st t) (auto split: prod.splits outcome.splits)

lemma pathsLoop_append:
  "pathsLoop E ref b hs (us1 @ us2) st t =
     (case pathsLoop E ref b hs us1 st t of
        (Return res, t') \<Rightarrow> (Return res, t')
      | (Continue st', t') \<Rightarrow> pathsLoop E ref b hs us2 st' t')"
  by (induction us1 arbitrary: st t) (auto split: prod.splits outcome.splits)

lemma last_host_eq: "(int i = int n - 1) = (Suc i = n)"
  by auto

lemma put_forward_dgst_same:
  "(put_forward p e st)\<lparr>dgst := dgst st\<rparr> = put_forward p e st"
  by (simp add: put_forward_def)

lemma attempt_spec_pass:
  "attempt E ref b u n i h st t =
     (case spec_pass E ref b u n i h (dgst st) t of
        (Failed p e d', t') \<Rightarrow> (Continue ((put_forward p e st)\<lparr>dgst := d'\<rparr>), t')
      | (Stopped err, t') \<Rightarrow> (Return (Inl err), t')
      | (Found desc, t') \<Rightarrow> (Return (Inr (ref, desc)), t'))"
proof (cases "ContextWithRepositoryScope E (refspec (withRewritesFromHost E b h))")
  case (Some err)
  then show ?thesis by (simp add: attempt_def spec_pass_def Let_def)
next
  case None
  obtain e0 req where an: "addNamespace E (base_request E (withRewritesFromHost E b h) h ''HEAD'' u)
        (Spec_Hostname E (refspec (withRewritesFromHost E b h))) = (e0, req)"
    by (cases "addNamespace E (base_request E (withRewritesFromHost E b h) h ''HEAD'' u)
        (Spec_Hostname E (refspec (withRewritesFromHost E b h)))") auto
  show ?thesis
  proof (cases e0)
    case (Some err)
    with None an show ?thesis by (simp add: attempt_def spec_pass_def Let_def)
  next
    case e0: None
    obtain res t1 where dw: "doWithRetries E t req (Suc i = n) = (res, t1)"
      by (cases "doWithRetries E t req (Suc i = n)") auto
    show ?thesis
    proof (cases res)
      case (Inl err0)
      with None an e0 dw show ?thesis
        by (simp add: attempt_def spec_pass_def Let_def put_forward_def last_host_eq)
    next
      case (Inr resp)
      with None an e0 dw have ha: "head_answered E b u n i h t resp t1"
        by (simp add: head_answered_def Let_def last_host_eq)
      have sp: "spec_pass E ref b u n i h (dgst st) t =
          (if StatusCode resp = 404 then (Failed 2 (Wrapped ref ErrNotFound) (dgst st), t1)
           else if StatusCode resp \<ge> 400 then (Failed 3 (unexpectedResponseErr resp) (dgst st), t1)
           else if StatusCode resp \<ge> 300 then (Stopped (unexpectedResponseErr resp), t1)
           else
            (case acquire E t1 (withRewritesFromHost E b h) h u (dgst st) resp of
               (Inl err, t2) \<Rightarrow> (Stopped err, t2)
             | (Inr (d', mediaType, sz), t2) \<Rightarrow>
                 if sz > MaxManifestSize then (Failed 4 (rejecting sz ref) d', t2)
                 else (Found \<lparr>Digest = d', MediaType = mediaType, Size = sz\<rparr>, t2)))"
        using None an e0 dw Inr by (simp add: spec_pass_def Let_def)
      show ?thesis
        unfolding attempt_head_answered [OF ha] sp
        by (auto simp add: put_forward_dgst_same split: prod.splits sum.splits)
    qed
  qed
qed

lemma spec_pass_prio:
  assumes "spec_pass E ref b u n i h d t = (Failed p e d', t')"
  shows "1 \<le> p"
proof -
  have "p = 1 \<or> p = 2 \<or> p = 3 \<or> p = 4"
    using assms
    by (simp add: spec_pass_def Let_def split: option.splits prod.splits sum.splits if_splits)
  then show ?thesis by auto
qed

lemma hostsLoop_spec_hosts:
  assumes "ranking_inv st"
  shows "case spec_hosts E ref b u n i hs (dgst st) (ranked st) t of
           (Ended res, t') \<Rightarrow> hostsLoop E ref b u n i hs st t = (Return res, t')
         | (Failures d' fs', t') \<Rightarrow>
             (\<exists>st'. hostsLoop E ref b u n i hs st t = (Continue st', t')
                    \<and> ranking_inv st' \<and> ranked st' = fs' \<and> dgst st' = d')"
  using assms
proof (induction hs arbitrary: i st t)
  case Nil
  then show ?case by simp
next
  case (Cons h hs)
  obtain pr t1 where sp: "spec_pass E ref b u n i h (dgst st) t = (pr, t1)"
    by (cases "spec_pass E ref b u n i h (dgst st) t") auto
  show ?case
  proof (cases pr)
    case (Failed p e d')
    let ?st1 = "(put_forward p e st)\<lparr>dgst := d'\<rparr>"
    from sp Failed have at: "attempt E ref b u n i h st t = (Continue ?st1, t1)"
      by (simp add: attempt_spec_pass)
    from sp Failed have "1 \<le> p" by (auto dest: spec_pass_prio)
    with Cons.prems have inv1: "ranking_inv ?st1" by (rule ranking_inv_step)
    have r1: "ranked ?st1 = ranked st @ [(p, e)]" and d1: "dgst ?st1 = d'"
      by (simp_all add: put_forward_def)
    have e1: "hostsLoop E ref b u n i (h # hs) st t = hostsLoop E ref b u n (Suc i) hs ?st1 t1"
      using at by simp
    have e2: "spec_hosts E ref b u n i (h # hs) (dgst st) (ranked st) t
                = spec_hosts E ref b u n (Suc i) hs d' (ranked st @ [(p, e)]) t1"
      using sp Failed by simp
    from Cons.IH [OF inv1, of "Suc i" t1] show ?thesis
      unfolding e1 e2 r1 d1 .
  next
    case (Stopped err)
    with sp show ?thesis by (simp add: attempt_spec_pass)
  next
    case (Found desc)
    with sp show ?thesis by (simp add: attempt_spec_pass)
  qed
qed

lemma pathsLoop_spec_paths:
  assumes "ranking_inv st"
  shows "case spec_paths E ref b hs us (dgst st) (ranked st) t of
           (Ended res, t') \<Rightarrow> pathsLoop E ref b hs us st t = (Return res, t')
         | (Failures d' fs', t') \<Rightarrow>
             (\<exists>st'. pathsLoop E ref b hs us st t = (Continue st', t')
                    \<and> ranking_inv st' \<and> ranked st' = fs' \<and> dgst st' = d')"
  using assms
proof (induction us arbitrary: st t)
  case Nil
  then show ?case by simp
next
  case (Cons u us)
  obtain rr t1 where sh: "spec_hosts E ref b u (length hs) 0 hs (dgst st) (ranked st) t = (rr, t1)"
    by (cases "spec_hosts E ref b u (length hs) 0 hs (dgst st) (ranked st) t") auto
  note hl = hostsLoop_spec_hosts [OF Cons.prems, of E ref b u "length hs" 0 hs t]
  show ?case
  proof (cases rr)
    case (Ended res)
    with sh hl show ?thesis by simp
  next
    case (Failures d' fs')
    with sh hl obtain st1 where
      l: "hostsLoop E ref b u (length hs) 0 hs st t = (Continue st1, t1)"
      and inv1: "ranking_inv st1" and r1: "ranked st1 = fs'" and d1: "dgst st1 = d'"
      by auto
    have e1: "pathsLoop E ref b hs (u # us) st t = pathsLoop E ref b hs us st1 t1"
      using l by simp
    have e2: "spec_paths E ref b hs (u # us) (dgst st) (ranked st) t
                = spec_paths E ref b hs us d' fs' t1"
      using sh Failures by simp
    from Cons.IH [OF inv1, of t1] show ?thesis
      unfolding e1 e2 r1 d1 .
  qed
qed

lemma ranking_inv_firstErr:
  "ranking_inv st \<Longrightarrow> firstErr st = selected (ranked st)"
  by (cases "ranked st = []") (simp_all add: ranking_inv_def selected_def)

lemma Resolve_spec_Resolve:
  assumes "enters_loops E ref b us hs"
  shows "Resolve E t ref = spec_Resolve E ref b us hs t"
proof -
  let ?st0 = "initial (Spec_Digest E (refspec b))"
  have inv0: "ranking_inv ?st0" by (simp add: ranking_inv_def initial_def)
  have d0: "dgst ?st0 = Spec_Digest E (refspec b)" and r0: "ranked ?st0 = []"
    by (simp_all add: initial_def)
  obtain rr t1 where sp: "spec_paths E ref b hs us (Spec_Digest E (refspec b)) [] t = (rr, t1)"
    by (cases "spec_paths E ref b hs us (Spec_Digest E (refspec b)) [] t") auto
  note pl = pathsLoop_spec_paths [OF inv0, of E ref b hs us t, unfolded d0 r0]
  show ?thesis
  proof (cases rr)
    case (Ended res)
    with sp pl show ?thesis
      by (simp add: Resolve_enters_loops [OF assms] spec_Resolve_def)
  next
    case (Failures d' fs')
    with sp pl obtain st' where
      l: "pathsLoop E ref b hs us ?st0 t = (Continue st', t1)"
      and inv: "ranking_inv st'" and r: "ranked st' = fs'"
      by auto
    from ranking_inv_firstErr [OF inv] r have "firstErr st' = selected fs'" by simp
    with sp Failures l show ?thesis
      by (simp add: Resolve_enters_loops [OF assms] spec_Resolve_def split: option.splits)
  qed
qed

lemma spec_pass_head_failed:
  assumes "head_failed E b u n i h t err t1"
  shows "spec_pass E ref b u n i h d t =
     (Failed 1
        (if errors_Is err ErrInvalidAuthorization
         then Wrapped ''pull access denied, repository does not exist or may require authorization'' err
         else err) d, t1)"
  using assms
  by (auto simp add: head_failed_def spec_pass_def Let_def last_host_eq
      split: option.splits prod.splits)

lemma spec_pass_head_answered:
  assumes "head_answered E b u n i h t resp t1"
  shows "spec_pass E ref b u n i h d t =
          (if StatusCode resp = 404 then (Failed 2 (Wrapped ref ErrNotFound) d, t1)
           else if StatusCode resp \<ge> 400 then (Failed 3 (unexpectedResponseErr resp) d, t1)
           else if StatusCode resp \<ge> 300 then (Stopped (unexpectedResponseErr resp), t1)
           else
            (case acquire E t1 (withRewritesFromHost E b h) h u d resp of
               (Inl err, t2) \<Rightarrow> (Stopped err, t2)
             | (Inr (d', mediaType, sz), t2) \<Rightarrow>
                 if sz > MaxManifestSize then (Failed 4 (rejecting sz ref) d', t2)
                 else (Found \<lparr>Digest = d', MediaType = mediaType, Size = sz\<rparr>, t2)))"
proof -
  from assms obtain req where
    sc: "ContextWithRepositoryScope E (refspec (withRewritesFromHost E b h)) = None"
    and an: "addNamespace E (base_request E (withRewritesFromHost E b h) h ''HEAD'' u)
        (Spec_Hostname E (refspec (withRewritesFromHost E b h))) = (None, req)"
    and dw: "doWithRetries E t req (int i = int n - 1) = (Inr resp, t1)"
    by (rule head_answeredD)
  from dw have dw': "doWithRetries E t req (Suc i = n) = (Inr resp, t1)"
    by (simp add: last_host_eq)
  show ?thesis
    unfolding spec_pass_def Let_def by (simp add: sc an dw')
qed

lemma selected_1_3:
  "selected [(1, e1), (3, e2)] = Some e2" "selected [(3, e2), (1, e1)] = Some e2"
  by (simp_all add: selected_def highest_def)

lemma enters_loops_tag:
  assumes "enters_loops E ref b [u] hs"
  shows "Spec_Digest E (refspec b) = []"
  using assms by (auto simp add: enters_loops_def Let_def split: if_splits)

section \<open>The concrete environment at work\<close>

lemma ex_resolveDockerBase:
  "resolveDockerBase (ex_env net hs) ex_ref = Inr (ex_base hs)"
  by (simp add: resolveDockerBase_def base_def ex_env_def ex_ref_def ex_base_def ex_Parse_def
      ex_Hostname_def TrimPrefix_def HasPrefix_def Let_def)

lemma ex_filterHosts:
  "filterHosts (ex_base [host_a, host_b]) {HostCapabilityPull, HostCapabilityResolve}
     = [host_a, host_b]"
  by (simp add: filterHosts_def ex_base_def Has_def host_a_def host_b_def ex_host_def)

lemma ex_enters_loops:
  "enters_loops (ex_env net [host_a, host_b]) ex_ref (ex_base [host_a, host_b])
     [[''manifests'', ''v1'']] [host_a, host_b]"
proof -
  have dg: "Spec_Digest (ex_env net [host_a, host_b]) (refspec (ex_base [host_a, host_b])) = []"
    by (simp add: ex_env_def ex_base_def ex_Digest_def)
  have ob: "Object (refspec (ex_base [host_a, host_b])) = ''v1''"
    by (simp add: ex_base_def)
  show ?thesis
    unfolding enters_loops_def
    by (simp add: ex_resolveDockerBase ex_filterHosts dg ob Let_def)
qed

lemma ex_enters_loops_ba:
  "enters_loops (ex_env net [host_b, host_a]) ex_ref (ex_base [host_b, host_a])
     [[''manifests'', ''v1'']] [host_b, host_a]"
proof -
  have dg: "Spec_Digest (ex_env net [host_b, host_a]) (refspec (ex_base [host_b, host_a])) = []"
    by (simp add: ex_env_def ex_base_def ex_Digest_def)
  have ob: "Object (refspec (ex_base [host_b, host_a])) = ''v1''"
    by (simp add: ex_base_def)
  have fh: "filterHosts (ex_base [host_b, host_a]) {HostCapabilityPull, HostCapabilityResolve}
     = [host_b, host_a]"
    by (simp add: filterHosts_def ex_base_def Has_def host_a_def host_b_def ex_host_def)
  show ?thesis
    unfolding enters_loops_def
    by (simp add: ex_resolveDockerBase fh dg ob Let_def)
qed

lemma ex_enters_loops_bab:
  "enters_loops (ex_env net [host_b, host_a, host_b]) ex_ref (ex_base [host_b, host_a, host_b])
     [[''manifests'', ''v1'']] [host_b, host_a, host_b]"
proof -
  have dg: "Spec_Digest (ex_env net [host_b, host_a, host_b])
      (refspec (ex_base [host_b, host_a, host_b])) = []"
    by (simp add: ex_env_def ex_base_def ex_Digest_def)
  have ob: "Object (refspec (ex_base [host_b, host_a, host_b])) = ''v1''"
    by (simp add: ex_base_def)
  have fh: "filterHosts (ex_base [host_b, host_a, host_b]) {HostCapabilityPull, HostCapabilityResolve}
     = [host_b, host_a, host_b]"
    by (simp add: filterHosts_def ex_base_def Has_def host_a_def host_b_def ex_host_def)
  show ?thesis
    unfolding enters_loops_def
    by (simp add: ex_resolveDockerBase fh dg ob Let_def)
qed

section \<open>The error that Resolve returns\<close>

text \<open>
  C1, as the claim states it, fails when a pair fails with an error that \<open>Resolve\<close>
  returns at once. The host \<open>a.example\<close> answers HEAD with 500, which is recorded with
  priority 3. The host \<open>b.example\<close> answers HEAD without a digest header and fails the GET
  that follows with a transport error. Every pair tried has failed, one with a
  transport error and one with 500, and \<open>Resolve\<close> returns the transport error.
\<close>

theorem Resolve_transport_error_counterexample:
  "attempt (ex_env net_500_reset [host_a, host_b]) ex_ref (ex_base [host_a, host_b])
      [''manifests'', ''v1''] 2 0 host_a ex_init 0
     = (Continue \<lparr>firstErr = Some (ErrUnexpectedStatus 500 []), firstErrPriority = 3, dgst = [],
                  ranked = [(3, ErrUnexpectedStatus 500 [])]\<rparr>, 1)
   \<and> Resolve (ex_env net_500_reset [host_a, host_b]) 0 ex_ref
     = (Inl (Wrapped ''failed to do request'' (External ''connection reset'')), 3)"
  by code_simp

text \<open>
  C1, as the code has it. Once \<open>Resolve\<close> has entered its loops, what it returns is what
  the ranking of the specification returns (\<open>spec_Resolve\<close>): a pass that fails with the
  error of the HEAD request counts with priority 1, with a 404 with priority 2, with
  another status above 399 with priority 3, with a size above \<open>MaxManifestSize\<close> with
  priority 4; when every (path, host) pair has failed in one of these ways, the error
  returned is the first among those of the highest priority; and a pass that fails in
  another way (scope or request not built, status from 300 to 399, digest header that
  is no digest, failure of the GET block) ends the resolution with its own error,
  whatever failed before.

  In particular, for a reference with a tag and two hosts: if the HEAD request to one
  host fails and the other host answers HEAD with 500, in either order, \<open>Resolve\<close>
  returns the unexpected-status error of the 500. And if the first host answers 500
  and the pass for the second host fails after its HEAD was answered with a status up
  to 299, \<open>Resolve\<close> returns the error of the second host.
\<close>

theorem Resolve_error_ranking:
  "(enters_loops E ref b us hs \<longrightarrow> Resolve E t ref = spec_Resolve E ref b us hs t)
   \<and> (enters_loops E ref b [u] [h1, h2] \<and> StatusCode resp = 500
        \<and> (head_failed E b u 2 0 h1 t err t1 \<and> head_answered E b u 2 1 h2 t1 resp t2
           \<or> head_answered E b u 2 0 h1 t resp t1 \<and> head_failed E b u 2 1 h2 t1 err t2)
      \<longrightarrow> Resolve E t ref = (Inl (unexpectedResponseErr resp), t2))
   \<and> (enters_loops E ref b [u] [h1, h2] \<and> StatusCode resp = 500
        \<and> head_answered E b u 2 0 h1 t resp t1
        \<and> head_answered E b u 2 1 h2 t1 resp2 t2 \<and> StatusCode resp2 \<le> 299
        \<and> acquire E t2 (withRewritesFromHost E b h2) h2 u [] resp2 = (Inl err, t3)
      \<longrightarrow> Resolve E t ref = (Inl err, t3))"
proof (intro conjI impI)
  assume "enters_loops E ref b us hs"
  then show "Resolve E t ref = spec_Resolve E ref b us hs t"
    by (rule Resolve_spec_Resolve)
next
  assume a: "enters_loops E ref b [u] [h1, h2] \<and> StatusCode resp = 500
        \<and> (head_failed E b u 2 0 h1 t err t1 \<and> head_answered E b u 2 1 h2 t1 resp t2
           \<or> head_answered E b u 2 0 h1 t resp t1 \<and> head_failed E b u 2 1 h2 t1 err t2)"
  then have el: "enters_loops E ref b [u] [h1, h2]" and st: "StatusCode resp = 500"
    by simp_all
  note tag = enters_loops_tag [OF el]
  from a consider
    (fa) "head_failed E b u 2 0 h1 t err t1" "head_answered E b u 2 1 h2 t1 resp t2"
    | (af) "head_answered E b u 2 0 h1 t resp t1" "head_failed E b u 2 1 h2 t1 err t2"
    by blast
  then have "spec_Resolve E ref b [u] [h1, h2] t = (Inl (unexpectedResponseErr resp), t2)"
  proof cases
    case fa
    have p1: "spec_pass E ref b u (Suc (Suc 0)) 0 h1 [] t =
        (Failed 1
           (if errors_Is err ErrInvalidAuthorization
            then Wrapped ''pull access denied, repository does not exist or may require authorization'' err
            else err) [], t1)"
      using spec_pass_head_failed [OF fa(1), where ref = ref and d = "[]"]
      by (simp add: numeral_2_eq_2)
    have p2: "spec_pass E ref b u (Suc (Suc 0)) (Suc 0) h2 [] t1 =
        (Failed 3 (unexpectedResponseErr resp) [], t2)"
      using spec_pass_head_answered [OF fa(2), where ref = ref and d = "[]"] st
      by (simp add: numeral_2_eq_2)
    show ?thesis
      by (simp add: spec_Resolve_def tag p1 p2 selected_1_3)
  next
    case af
    have p1: "spec_pass E ref b u (Suc (Suc 0)) 0 h1 [] t =
        (Failed 3 (unexpectedResponseErr resp) [], t1)"
      using spec_pass_head_answered [OF af(1), where ref = ref and d = "[]"] st
      by (simp add: numeral_2_eq_2)
    have p2: "spec_pass E ref b u (Suc (Suc 0)) (Suc 0) h2 [] t1 =
        (Failed 1
           (if errors_Is err ErrInvalidAuthorization
            then Wrapped ''pull access denied, repository does not exist or may require authorization'' err
            else err) [], t2)"
      using spec_pass_head_failed [OF af(2), where ref = ref and d = "[]"]
      by (simp add: numeral_2_eq_2)
    show ?thesis
      by (simp add: spec_Resolve_def tag p1 p2 selected_1_3)
  qed
  then show "Resolve E t ref = (Inl (unexpectedResponseErr resp), t2)"
    by (simp add: Resolve_spec_Resolve [OF el])
next
  assume a: "enters_loops E ref b [u] [h1, h2] \<and> StatusCode resp = 500
        \<and> head_answered E b u 2 0 h1 t resp t1
        \<and> head_answered E b u 2 1 h2 t1 resp2 t2 \<and> StatusCode resp2 \<le> 299
        \<and> acquire E t2 (withRewritesFromHost E b h2) h2 u [] resp2 = (Inl err, t3)"
  then have el: "enters_loops E ref b [u] [h1, h2]" and st: "StatusCode resp = 500"
    and h1: "head_answered E b u 2 0 h1 t resp t1"
    and h2: "head_answered E b u 2 1 h2 t1 resp2 t2" and ok: "StatusCode resp2 \<le> 299"
    and aq: "acquire E t2 (withRewritesFromHost E b h2) h2 u [] resp2 = (Inl err, t3)"
    by simp_all
  note tag = enters_loops_tag [OF el]
  have p1: "spec_pass E ref b u (Suc (Suc 0)) 0 h1 [] t =
      (Failed 3 (unexpectedResponseErr resp) [], t1)"
    using spec_pass_head_answered [OF h1, where ref = ref and d = "[]"] st
    by (simp add: numeral_2_eq_2)
  have p2: "spec_pass E ref b u (Suc (Suc 0)) (Suc 0) h2 [] t1 = (Stopped err, t3)"
    using spec_pass_head_answered [OF h2, where ref = ref and d = "[]"] ok aq
    by (simp add: numeral_2_eq_2)
  have "spec_Resolve E ref b [u] [h1, h2] t = (Inl err, t3)"
    by (simp add: spec_Resolve_def tag p1 p2)
  then show "Resolve E t ref = (Inl err, t3)"
    by (simp add: Resolve_spec_Resolve [OF el])
qed

text \<open>
  The host \<open>a.example\<close> refuses the connection and \<open>b.example\<close> answers 500, in both orders
  of the hosts; and \<open>a.example\<close> answers 500 while the GET to \<open>b.example\<close> fails.
\<close>

theorem Resolve_error_ranking_witness:
  "(enters_loops (ex_env net_refused_500 [host_a, host_b]) ex_ref (ex_base [host_a, host_b])
       [[''manifests'', ''v1'']] [host_a, host_b]
     \<and> Resolve (ex_env net_refused_500 [host_a, host_b]) 0 ex_ref
       = spec_Resolve (ex_env net_refused_500 [host_a, host_b]) ex_ref (ex_base [host_a, host_b])
           [[''manifests'', ''v1'']] [host_a, host_b] 0
     \<and> spec_Resolve (ex_env net_refused_500 [host_a, host_b]) ex_ref (ex_base [host_a, host_b])
           [[''manifests'', ''v1'']] [host_a, host_b] 0
       = (Inl (ErrUnexpectedStatus 500 []), 3))
   \<and> ((enters_loops (ex_env net_refused_500 [host_a, host_b]) ex_ref (ex_base [host_a, host_b])
         [[''manifests'', ''v1'']] [host_a, host_b]
       \<and> StatusCode (ex_status 500) = 500
       \<and> (head_failed (ex_env net_refused_500 [host_a, host_b]) (ex_base [host_a, host_b])
             [''manifests'', ''v1''] 2 0 host_a 0
             (Wrapped ''failed to do request'' (External ''connection refused'')) 1
           \<and> head_answered (ex_env net_refused_500 [host_a, host_b]) (ex_base [host_a, host_b])
             [''manifests'', ''v1''] 2 1 host_b 1 (ex_status 500) 3
          \<or> head_answered (ex_env net_refused_500 [host_a, host_b]) (ex_base [host_a, host_b])
             [''manifests'', ''v1''] 2 0 host_a 0 (ex_status 500) 1
           \<and> head_failed (ex_env net_refused_500 [host_a, host_b]) (ex_base [host_a, host_b])
             [''manifests'', ''v1''] 2 1 host_b 1
             (Wrapped ''failed to do request'' (External ''connection refused'')) 3))
     \<and> Resolve (ex_env net_refused_500 [host_a, host_b]) 0 ex_ref
       = (Inl (unexpectedResponseErr (ex_status 500)), 3))
   \<and> ((enters_loops (ex_env net_refused_500 [host_b, host_a]) ex_ref (ex_base [host_b, host_a])
         [[''manifests'', ''v1'']] [host_b, host_a]
       \<and> StatusCode (ex_status 500) = 500
       \<and> (head_failed (ex_env net_refused_500 [host_b, host_a]) (ex_base [host_b, host_a])
             [''manifests'', ''v1''] 2 0 host_b 0
             (Wrapped ''failed to do request'' (External ''connection refused'')) 1
           \<and> head_answered (ex_env net_refused_500 [host_b, host_a]) (ex_base [host_b, host_a])
             [''manifests'', ''v1''] 2 1 host_a 1 (ex_status 500) 2
          \<or> head_answered (ex_env net_refused_500 [host_b, host_a]) (ex_base [host_b, host_a])
             [''manifests'', ''v1''] 2 0 host_b 0 (ex_status 500) 1
           \<and> head_failed (ex_env net_refused_500 [host_b, host_a]) (ex_base [host_b, host_a])
             [''manifests'', ''v1''] 2 1 host_a 1
             (Wrapped ''failed to do request'' (External ''connection refused'')) 2))
     \<and> Resolve (ex_env net_refused_500 [host_b, host_a]) 0 ex_ref
       = (Inl (unexpectedResponseErr (ex_status 500)), 2))
   \<and> ((enters_loops (ex_env net_500_reset [host_a, host_b]) ex_ref (ex_base [host_a, host_b])
         [[''manifests'', ''v1'']] [host_a, host_b]
       \<and> StatusCode (ex_status 500) = 500
       \<and> head_answered (ex_env net_500_reset [host_a, host_b]) (ex_base [host_a, host_b])
            [''manifests'', ''v1''] 2 0 host_a 0 (ex_status 500) 1
       \<and> head_answered (ex_env net_500_reset [host_a, host_b]) (ex_base [host_a, host_b])
            [''manifests'', ''v1''] 2 1 host_b 1 (ex_manifest 1234 [] []) 2
       \<and> StatusCode (ex_manifest 1234 [] []) \<le> 299
       \<and> acquire (ex_env net_500_reset [host_a, host_b]) 2
            (withRewritesFromHost (ex_env net_500_reset [host_a, host_b])
               (ex_base [host_a, host_b]) host_b)
            host_b [''manifests'', ''v1''] [] (ex_manifest 1234 [] [])
          = (Inl (Wrapped ''failed to do request'' (External ''connection reset'')), 3))
     \<and> Resolve (ex_env net_500_reset [host_a, host_b]) 0 ex_ref
       = (Inl (Wrapped ''failed to do request'' (External ''connection reset'')), 3))"
proof -
  note el = ex_enters_loops [of net_refused_500]
  note a1 = Resolve_error_ranking [THEN conjunct1, THEN mp, OF el, of 0]
  have a2: "spec_Resolve (ex_env net_refused_500 [host_a, host_b]) ex_ref (ex_base [host_a, host_b])
           [[''manifests'', ''v1'']] [host_a, host_b] 0
       = (Inl (ErrUnexpectedStatus 500 []), 3)"
    by code_simp
  have s500: "StatusCode (ex_status 500) = 500"
    by code_simp
  have b1: "head_failed (ex_env net_refused_500 [host_a, host_b]) (ex_base [host_a, host_b])
             [''manifests'', ''v1''] 2 0 host_a 0
             (Wrapped ''failed to do request'' (External ''connection refused'')) 1
           \<and> head_answered (ex_env net_refused_500 [host_a, host_b]) (ex_base [host_a, host_b])
             [''manifests'', ''v1''] 2 1 host_b 1 (ex_status 500) 3"
    by code_simp
  from el s500 b1 have hb: "enters_loops (ex_env net_refused_500 [host_a, host_b]) ex_ref (ex_base [host_a, host_b])
         [[''manifests'', ''v1'']] [host_a, host_b]
       \<and> StatusCode (ex_status 500) = 500
       \<and> (head_failed (ex_env net_refused_500 [host_a, host_b]) (ex_base [host_a, host_b])
             [''manifests'', ''v1''] 2 0 host_a 0
             (Wrapped ''failed to do request'' (External ''connection refused'')) 1
           \<and> head_answered (ex_env net_refused_500 [host_a, host_b]) (ex_base [host_a, host_b])
             [''manifests'', ''v1''] 2 1 host_b 1 (ex_status 500) 3
          \<or> head_answered (ex_env net_refused_500 [host_a, host_b]) (ex_base [host_a, host_b])
             [''manifests'', ''v1''] 2 0 host_a 0 (ex_status 500) 1
           \<and> head_failed (ex_env net_refused_500 [host_a, host_b]) (ex_base [host_a, host_b])
             [''manifests'', ''v1''] 2 1 host_b 1
             (Wrapped ''failed to do request'' (External ''connection refused'')) 3)"
    by blast
  note cb = Resolve_error_ranking [THEN conjunct2, THEN conjunct1, THEN mp, OF hb]
  note el' = ex_enters_loops_ba [of net_refused_500]
  have b2: "head_answered (ex_env net_refused_500 [host_b, host_a]) (ex_base [host_b, host_a])
             [''manifests'', ''v1''] 2 0 host_b 0 (ex_status 500) 1
           \<and> head_failed (ex_env net_refused_500 [host_b, host_a]) (ex_base [host_b, host_a])
             [''manifests'', ''v1''] 2 1 host_a 1
             (Wrapped ''failed to do request'' (External ''connection refused'')) 2"
    by code_simp
  from el' s500 b2 have hb': "enters_loops (ex_env net_refused_500 [host_b, host_a]) ex_ref (ex_base [host_b, host_a])
         [[''manifests'', ''v1'']] [host_b, host_a]
       \<and> StatusCode (ex_status 500) = 500
       \<and> (head_failed (ex_env net_refused_500 [host_b, host_a]) (ex_base [host_b, host_a])
             [''manifests'', ''v1''] 2 0 host_b 0
             (Wrapped ''failed to do request'' (External ''connection refused'')) 1
           \<and> head_answered (ex_env net_refused_500 [host_b, host_a]) (ex_base [host_b, host_a])
             [''manifests'', ''v1''] 2 1 host_a 1 (ex_status 500) 2
          \<or> head_answered (ex_env net_refused_500 [host_b, host_a]) (ex_base [host_b, host_a])
             [''manifests'', ''v1''] 2 0 host_b 0 (ex_status 500) 1
           \<and> head_failed (ex_env net_refused_500 [host_b, host_a]) (ex_base [host_b, host_a])
             [''manifests'', ''v1''] 2 1 host_a 1
             (Wrapped ''failed to do request'' (External ''connection refused'')) 2)"
    by blast
  note cb' = Resolve_error_ranking [THEN conjunct2, THEN conjunct1, THEN mp, OF hb']
  note el2 = ex_enters_loops [of net_500_reset]
  have c1: "head_answered (ex_env net_500_reset [host_a, host_b]) (ex_base [host_a, host_b])
            [''manifests'', ''v1''] 2 0 host_a 0 (ex_status 500) 1
       \<and> head_answered (ex_env net_500_reset [host_a, host_b]) (ex_base [host_a, host_b])
            [''manifests'', ''v1''] 2 1 host_b 1 (ex_manifest 1234 [] []) 2
       \<and> StatusCode (ex_manifest 1234 [] []) \<le> 299
       \<and> acquire (ex_env net_500_reset [host_a, host_b]) 2
            (withRewritesFromHost (ex_env net_500_reset [host_a, host_b])
               (ex_base [host_a, host_b]) host_b)
            host_b [''manifests'', ''v1''] [] (ex_manifest 1234 [] [])
          = (Inl (Wrapped ''failed to do request'' (External ''connection reset'')), 3)"
    by code_simp
  from el2 s500 c1 have hc: "enters_loops (ex_env net_500_reset [host_a, host_b]) ex_ref (ex_base [host_a, host_b])
         [[''manifests'', ''v1'']] [host_a, host_b]
       \<and> StatusCode (ex_status 500) = 500
       \<and> head_answered (ex_env net_500_reset [host_a, host_b]) (ex_base [host_a, host_b])
            [''manifests'', ''v1''] 2 0 host_a 0 (ex_status 500) 1
       \<and> head_answered (ex_env net_500_reset [host_a, host_b]) (ex_base [host_a, host_b])
            [''manifests'', ''v1''] 2 1 host_b 1 (ex_manifest 1234 [] []) 2
       \<and> StatusCode (ex_manifest 1234 [] []) \<le> 299
       \<and> acquire (ex_env net_500_reset [host_a, host_b]) 2
            (withRewritesFromHost (ex_env net_500_reset [host_a, host_b])
               (ex_base [host_a, host_b]) host_b)
            host_b [''manifests'', ''v1''] [] (ex_manifest 1234 [] [])
          = (Inl (Wrapped ''failed to do request'' (External ''connection reset'')), 3)"
    by blast
  note cc = Resolve_error_ranking [THEN conjunct2, THEN conjunct2, THEN mp, OF hc]
  show ?thesis
    by (rule conjI [OF conjI [OF el conjI [OF a1 a2]]
          conjI [OF conjI [OF hb cb] conjI [OF conjI [OF hb' cb'] conjI [OF hc cc]]]])
qed

section \<open>The size ceiling\<close>

text \<open>
  C3, as the claim states it, fails at the second of two oversized manifests. Both hosts
  report a size above \<open>MaxManifestSize\<close>: \<open>a.example\<close> 5 000 000 bytes and \<open>b.example\<close>
  6 000 000 bytes. After the pass for \<open>b.example\<close> the recorded error is still the one
  of \<open>a.example\<close>; no error that mentions 6 000 000 bytes is recorded, and \<open>Resolve\<close>
  returns the error that mentions 5 000 000 bytes.
\<close>

theorem second_oversized_counterexample:
  "head_answered (ex_env net_two_oversized [host_a, host_b]) (ex_base [host_a, host_b])
      [''manifests'', ''v1''] 2 1 host_b 1 (ex_manifest 6000000 ''sha256:bbb'' []) 2
   \<and> ContentLength (ex_manifest 6000000 ''sha256:bbb'' []) > MaxManifestSize
   \<and> pathsLoop (ex_env net_two_oversized [host_a, host_b]) ex_ref (ex_base [host_a, host_b])
        [host_a, host_b] [[''manifests'', ''v1'']] ex_init 0
     = (Continue
          \<lparr>firstErr = Some (Wrapped ''rejecting 5000000 byte manifest for example.com/app:v1'' ErrNotFound),
           firstErrPriority = 4, dgst = ''sha256:aaa'',
           ranked = [(4, Wrapped ''rejecting 5000000 byte manifest for example.com/app:v1'' ErrNotFound),
                     (4, Wrapped ''rejecting 6000000 byte manifest for example.com/app:v1'' ErrNotFound)]\<rparr>,
        2)
   \<and> Resolve (ex_env net_two_oversized [host_a, host_b]) 0 ex_ref
     = (Inl (Wrapped ''rejecting 5000000 byte manifest for example.com/app:v1'' ErrNotFound), 2)"
  by code_simp

text \<open>
  C3, as the code has it. The size of a descriptor that \<open>Resolve\<close> returns is at most
  \<open>MaxManifestSize\<close>. When the HEAD request of a pair is answered with a status up to 299
  and the pass arrives at a size above \<open>MaxManifestSize\<close>, the loop goes on with the next
  pair and returns no descriptor for this one; the not-found error that mentions the
  byte count is put forward with priority 4, and it becomes the recorded error unless
  an error of priority 4 is recorded already.
\<close>

theorem size_ceiling:
  "(Resolve E t0 ref = (Inr (x, desc), t3) \<longrightarrow> Size desc \<le> MaxManifestSize)
   \<and> (head_answered E b u n i h t resp t1 \<and> StatusCode resp \<le> 299
        \<and> acquire E t1 (withRewritesFromHost E b h) h u (dgst st) resp = (Inr (d, ct, sz), t2)
        \<and> sz > MaxManifestSize
      \<longrightarrow> hostsLoop E ref b u n i (h # hs) st t =
            hostsLoop E ref b u n (Suc i) hs ((put_forward 4 (rejecting sz ref) st)\<lparr>dgst := d\<rparr>) t2)"
proof (intro conjI impI)
  assume "Resolve E t0 ref = (Inr (x, desc), t3)"
  then show "Size desc \<le> MaxManifestSize" by (rule Resolve_size_le)
next
  assume a: "head_answered E b u n i h t resp t1 \<and> StatusCode resp \<le> 299
        \<and> acquire E t1 (withRewritesFromHost E b h) h u (dgst st) resp = (Inr (d, ct, sz), t2)
        \<and> sz > MaxManifestSize"
  then have ha: "head_answered E b u n i h t resp t1" by simp
  from a show "hostsLoop E ref b u n i (h # hs) st t =
            hostsLoop E ref b u n (Suc i) hs ((put_forward 4 (rejecting sz ref) st)\<lparr>dgst := d\<rparr>) t2"
    by (simp add: attempt_head_answered [OF ha])
qed

theorem size_ceiling_witness:
  "Resolve (ex_env net_happy [host_a]) 0 ex_ref
     = (Inr (ex_ref, \<lparr>Digest = ''sha256:abc'',
                     MediaType = ''application/vnd.oci.image.manifest.v1+json'',
                     Size = 1234\<rparr>), 1)
   \<and> Size \<lparr>Digest = ''sha256:abc'', MediaType = ''application/vnd.oci.image.manifest.v1+json'',
            Size = 1234\<rparr> \<le> MaxManifestSize
   \<and> (head_answered (ex_env net_two_oversized [host_a, host_b]) (ex_base [host_a, host_b])
         [''manifests'', ''v1''] 2 0 host_a 0 (ex_manifest 5000000 ''sha256:aaa'' []) 1
       \<and> StatusCode (ex_manifest 5000000 ''sha256:aaa'' []) \<le> 299
       \<and> acquire (ex_env net_two_oversized [host_a, host_b]) 1
            (withRewritesFromHost (ex_env net_two_oversized [host_a, host_b])
               (ex_base [host_a, host_b]) host_a)
            host_a [''manifests'', ''v1''] (dgst ex_init) (ex_manifest 5000000 ''sha256:aaa'' [])
          = (Inr (''sha256:aaa'', ''application/vnd.oci.image.manifest.v1+json'', 5000000), 1)
       \<and> 5000000 > MaxManifestSize)
   \<and> hostsLoop (ex_env net_two_oversized [host_a, host_b]) ex_ref (ex_base [host_a, host_b])
        [''manifests'', ''v1''] 2 0 [host_a, host_b] ex_init 0
     = hostsLoop (ex_env net_two_oversized [host_a, host_b]) ex_ref (ex_base [host_a, host_b])
        [''manifests'', ''v1''] 2 (Suc 0) [host_b]
        ((put_forward 4 (rejecting 5000000 ex_ref) ex_init)\<lparr>dgst := ''sha256:aaa''\<rparr>) 1"
proof -
  have f1: "Resolve (ex_env net_happy [host_a]) 0 ex_ref
     = (Inr (ex_ref, \<lparr>Digest = ''sha256:abc'',
                     MediaType = ''application/vnd.oci.image.manifest.v1+json'',
                     Size = 1234\<rparr>), 1)"
    by code_simp
  have f2: "head_answered (ex_env net_two_oversized [host_a, host_b]) (ex_base [host_a, host_b])
         [''manifests'', ''v1''] 2 0 host_a 0 (ex_manifest 5000000 ''sha256:aaa'' []) 1
       \<and> StatusCode (ex_manifest 5000000 ''sha256:aaa'' []) \<le> 299
       \<and> acquire (ex_env net_two_oversized [host_a, host_b]) 1
            (withRewritesFromHost (ex_env net_two_oversized [host_a, host_b])
               (ex_base [host_a, host_b]) host_a)
            host_a [''manifests'', ''v1''] (dgst ex_init) (ex_manifest 5000000 ''sha256:aaa'' [])
          = (Inr (''sha256:aaa'', ''application/vnd.oci.image.manifest.v1+json'', 5000000), 1)
       \<and> 5000000 > MaxManifestSize"
    by code_simp
  note c1 = size_ceiling [THEN conjunct1, THEN mp, OF f1]
  note c2 = size_ceiling [where ref = ex_ref and hs = "[host_b]", THEN conjunct2, THEN mp, OF f2]
  show ?thesis by (rule conjI [OF f1 conjI [OF c1 conjI [OF f2 c2]]])
qed

section \<open>The digest of a reference with a digest\<close>

text \<open>
  C4. When the reference carries a digest, that is, when \<^verbatim>\<open>refspec.Digest()\<close> of the parsed
  reference is not empty, the digest of a descriptor that \<open>Resolve\<close> returns is this
  digest.
\<close>

theorem Resolve_keeps_input_digest:
  assumes "Resolve E t ref = (Inr (x, desc), t')"
    and "resolveDockerBase E ref = Inr b"
    and "Spec_Digest E (refspec b) \<noteq> []"
  shows "Digest desc = Spec_Digest E (refspec b)"
proof -
  let ?d = "Spec_Digest E (refspec b)"
  let ?st = "\<lparr>firstErr = None, firstErrPriority = 0, dgst = ?d, ranked = []\<rparr>"
  let ?hs = "filterHosts b {HostCapabilityPull}"
  from assms have run:
    "pathsLoop E ref b ?hs [[''manifests'', ?d], [''blobs'', ?d]] ?st t = (Return (Inr (x, desc)), t')"
    by (auto simp add: Resolve_def Let_def
        split: sum.splits if_splits option.splits prod.splits outcome.splits)
  have "dgst ?st \<noteq> []" using assms(3) by simp
  from pathsLoop_Return_digest [OF run this] show ?thesis by simp
qed

text \<open>
  A reference with a digest for which the host answers 404 under \<open>manifests\<close> and 200
  under \<open>blobs\<close>.
\<close>

theorem Resolve_keeps_input_digest_witness:
  "Resolve (ex_env net_blob_fallback [host_a]) 0 ''example.com/app@sha256:def''
     = (Inr (''example.com/app@sha256:def'',
             \<lparr>Digest = ''sha256:def'', MediaType = ''application/octet-stream'', Size = 500\<rparr>), 2)
   \<and> resolveDockerBase (ex_env net_blob_fallback [host_a]) ''example.com/app@sha256:def''
     = Inr \<lparr>refspec = \<lparr>Locator = ''example.com/app'', Object = ''@sha256:def''\<rparr>,
            repository = ''app'', hosts = [host_a]\<rparr>
   \<and> Spec_Digest (ex_env net_blob_fallback [host_a])
        (refspec \<lparr>refspec = \<lparr>Locator = ''example.com/app'', Object = ''@sha256:def''\<rparr>,
                  repository = ''app'', hosts = [host_a]\<rparr>) \<noteq> []
   \<and> Digest \<lparr>Digest = ''sha256:def'', MediaType = ''application/octet-stream'', Size = 500\<rparr>
     = Spec_Digest (ex_env net_blob_fallback [host_a])
        (refspec \<lparr>refspec = \<lparr>Locator = ''example.com/app'', Object = ''@sha256:def''\<rparr>,
                  repository = ''app'', hosts = [host_a]\<rparr>)"
proof -
  have f1: "Resolve (ex_env net_blob_fallback [host_a]) 0 ''example.com/app@sha256:def''
     = (Inr (''example.com/app@sha256:def'',
             \<lparr>Digest = ''sha256:def'', MediaType = ''application/octet-stream'', Size = 500\<rparr>), 2)"
    by code_simp
  have f2: "resolveDockerBase (ex_env net_blob_fallback [host_a]) ''example.com/app@sha256:def''
     = Inr \<lparr>refspec = \<lparr>Locator = ''example.com/app'', Object = ''@sha256:def''\<rparr>,
            repository = ''app'', hosts = [host_a]\<rparr>"
    by (simp add: resolveDockerBase_def base_def ex_env_def ex_Parse_def
        ex_Hostname_def TrimPrefix_def HasPrefix_def Let_def)
  have f3: "Spec_Digest (ex_env net_blob_fallback [host_a])
        (refspec \<lparr>refspec = \<lparr>Locator = ''example.com/app'', Object = ''@sha256:def''\<rparr>,
                  repository = ''app'', hosts = [host_a]\<rparr>) \<noteq> []"
    by (simp add: ex_env_def ex_Digest_def)
  note c = Resolve_keeps_input_digest [OF f1 f2 f3]
  show ?thesis by (rule conjI [OF f1 conjI [OF f2 conjI [OF f3 c]]])
qed

section \<open>The digest of a reference with a tag\<close>

text \<open>
  C7, as the claim states it, fails when the HEAD response has a digest header and no
  length. The header \<open>sha256:aaa\<close> is present and passes validation, the length is
  \<open>-1\<close>, and the body that the host sends for GET is \<open>xyz\<close>. \<open>Resolve\<close> does not take the
  header: the digest of the descriptor is computed from the body.
\<close>

theorem header_with_unknown_size_counterexample:
  "DockerContentDigest (ex_manifest (- 1) ''sha256:aaa'' []) = ''sha256:aaa''
   \<and> ex_Validate ''sha256:aaa'' = None
   \<and> head_answered (ex_env net_unknown_size [host_a]) (ex_base [host_a])
        [''manifests'', ''v1''] 1 0 host_a 0 (ex_manifest (- 1) ''sha256:aaa'' []) 1
   \<and> Resolve (ex_env net_unknown_size [host_a]) 0 ex_ref
     = (Inr (ex_ref, \<lparr>Digest = ex_FromReader ''xyz'',
                      MediaType = ''application/vnd.oci.image.manifest.v1+json'',
                      Size = 3\<rparr>), 2)
   \<and> ex_FromReader ''xyz'' \<noteq> ''sha256:aaa''"
  by code_simp

text \<open>
  C7, as the code has it, for a pass that starts with no digest known (the reference has
  a tag and no earlier pass has taken a digest from a header) and whose HEAD request is
  answered with a status up to 299.
  \<^item> If the digest header is present, the length is not \<open>-1\<close> and the header passes
    validation, the header is the digest, no further request is started, and with a
    size within the ceiling the descriptor returned has the header as its digest.
  \<^item> If the digest header is present, the length is not \<open>-1\<close> and the header fails
    validation, \<open>Resolve\<close> returns an error at once.
  \<^item> If the digest header is absent or the length is \<open>-1\<close>, which is when the digest is
    still unknown or the size is unknown, the GET block runs: at least one request is
    started, and when the GET is answered with a media type other than schema 1 and
    the body is read, the digest is computed from the body and the size is the number
    of bytes read.
\<close>

theorem tag_digest_acquisition:
  assumes "head_answered E b0 u n i h t resp t1" and "StatusCode resp \<le> 299"
    and "dgst st = []"
  shows
    "(DockerContentDigest resp \<noteq> [] \<and> ContentLength resp \<noteq> - 1
        \<and> digest_Validate E (DockerContentDigest resp) = None
      \<longrightarrow> acquire E t1 (withRewritesFromHost E b0 h) h u [] resp =
            (Inr (DockerContentDigest resp, getManifestMediaType E resp, ContentLength resp), t1)
          \<and> (ContentLength resp \<le> MaxManifestSize
             \<longrightarrow> hostsLoop E ref b0 u n i (h # hs) st t =
                   (Return (Inr (ref, \<lparr>Digest = DockerContentDigest resp,
                                        MediaType = getManifestMediaType E resp,
                                        Size = ContentLength resp\<rparr>)), t1)))
     \<and> (DockerContentDigest resp \<noteq> [] \<and> ContentLength resp \<noteq> - 1
        \<and> digest_Validate E (DockerContentDigest resp) = Some err
      \<longrightarrow> hostsLoop E ref b0 u n i (h # hs) st t =
            (Return (Inl (Wrapped (strconv_Quote E (DockerContentDigest resp)
                                     @ '' in header not a valid digest'') err)), t1))
     \<and> (DockerContentDigest resp = [] \<or> ContentLength resp = - 1
      \<longrightarrow> acquire E t1 (withRewritesFromHost E b0 h) h u [] resp
            = fetchManifest E t1 (withRewritesFromHost E b0 h) h u []
          \<and> t1 < snd (acquire E t1 (withRewritesFromHost E b0 h) h u [] resp)
          \<and> (get_answered E (withRewritesFromHost E b0 h) h u t1 resp2 t2
               \<and> getManifestMediaType E resp2 \<noteq> MediaTypeDockerSchema1Manifest E
               \<and> Body resp2 = Inr bytes
             \<longrightarrow> acquire E t1 (withRewritesFromHost E b0 h) h u [] resp =
                   (Inr (digest_FromReader E bytes, getManifestMediaType E resp2,
                         int (length bytes)), t2)))"
proof -
  let ?b = "withRewritesFromHost E b0 h"
  note at = attempt_head_answered [OF assms(1), of ref st]
  from assms(1) obtain req where
    an: "addNamespace E (base_request E ?b h ''HEAD'' u) (Spec_Hostname E (refspec ?b)) = (None, req)"
    by (rule head_answeredD)
  from addNamespace_method [OF an, of "''GET''"]
  have get_ok: "fst (addNamespace E (base_request E ?b h ''GET'' u) (Spec_Hostname E (refspec ?b))) = None"
    by simp
  show ?thesis
  proof (intro conjI impI)
    assume a: "DockerContentDigest resp \<noteq> [] \<and> ContentLength resp \<noteq> - 1
        \<and> digest_Validate E (DockerContentDigest resp) = None"
    then show aq: "acquire E t1 ?b h u [] resp =
            (Inr (DockerContentDigest resp, getManifestMediaType E resp, ContentLength resp), t1)"
      by (simp add: acquire_def Let_def)
    assume "ContentLength resp \<le> MaxManifestSize"
    with assms(2,3) aq show "hostsLoop E ref b0 u n i (h # hs) st t =
                   (Return (Inr (ref, \<lparr>Digest = DockerContentDigest resp,
                                        MediaType = getManifestMediaType E resp,
                                        Size = ContentLength resp\<rparr>)), t1)"
      by (simp add: at)
  next
    assume a: "DockerContentDigest resp \<noteq> [] \<and> ContentLength resp \<noteq> - 1
        \<and> digest_Validate E (DockerContentDigest resp) = Some err"
    then have "acquire E t1 ?b h u [] resp =
            (Inl (Wrapped (strconv_Quote E (DockerContentDigest resp)
                             @ '' in header not a valid digest'') err), t1)"
      by (simp add: acquire_def Let_def)
    with assms(2,3) show "hostsLoop E ref b0 u n i (h # hs) st t =
            (Return (Inl (Wrapped (strconv_Quote E (DockerContentDigest resp)
                                     @ '' in header not a valid digest'') err)), t1)"
      by (simp add: at)
  next
    assume c: "DockerContentDigest resp = [] \<or> ContentLength resp = - 1"
    then show eq: "acquire E t1 ?b h u [] resp = fetchManifest E t1 ?b h u []"
      by (auto simp add: acquire_def Let_def)
    from fetchManifest_clock [OF get_ok, of t1 "[]"]
    show "t1 < snd (acquire E t1 ?b h u [] resp)"
      by (simp add: eq)
    assume g: "get_answered E ?b h u t1 resp2 t2
               \<and> getManifestMediaType E resp2 \<noteq> MediaTypeDockerSchema1Manifest E
               \<and> Body resp2 = Inr bytes"
    then have ga: "get_answered E ?b h u t1 resp2 t2" by simp
    from g show "acquire E t1 ?b h u [] resp =
                   (Inr (digest_FromReader E bytes, getManifestMediaType E resp2,
                         int (length bytes)), t2)"
      by (simp add: eq fetchManifest_get_answered [OF ga])
  qed
qed

text \<open>
  Three hosts: one answers HEAD with a valid digest header and a length, one with a
  header that is no digest, and one with a header and no length.
\<close>

theorem tag_digest_acquisition_witness:
  "(head_answered (ex_env net_happy [host_a]) (ex_base [host_a]) [''manifests'', ''v1''] 1 0
        host_a 0 (ex_manifest 1234 ''sha256:abc'' []) 1
      \<and> StatusCode (ex_manifest 1234 ''sha256:abc'' []) \<le> 299
      \<and> dgst ex_init = []
      \<and> DockerContentDigest (ex_manifest 1234 ''sha256:abc'' []) \<noteq> []
      \<and> ContentLength (ex_manifest 1234 ''sha256:abc'' []) \<noteq> - 1
      \<and> digest_Validate (ex_env net_happy [host_a])
           (DockerContentDigest (ex_manifest 1234 ''sha256:abc'' [])) = None
      \<and> ContentLength (ex_manifest 1234 ''sha256:abc'' []) \<le> MaxManifestSize)
   \<and> hostsLoop (ex_env net_happy [host_a]) ex_ref (ex_base [host_a]) [''manifests'', ''v1''] 1 0
        [host_a] ex_init 0
      = (Return (Inr (ex_ref,
           \<lparr>Digest = DockerContentDigest (ex_manifest 1234 ''sha256:abc'' []),
            MediaType = getManifestMediaType (ex_env net_happy [host_a])
                          (ex_manifest 1234 ''sha256:abc'' []),
            Size = ContentLength (ex_manifest 1234 ''sha256:abc'' [])\<rparr>)), 1)
   \<and> (head_answered (ex_env net_bad_header [host_a]) (ex_base [host_a]) [''manifests'', ''v1''] 1 0
        host_a 0 (ex_manifest 1234 ''latest'' []) 1
      \<and> DockerContentDigest (ex_manifest 1234 ''latest'' []) \<noteq> []
      \<and> ContentLength (ex_manifest 1234 ''latest'' []) \<noteq> - 1
      \<and> digest_Validate (ex_env net_bad_header [host_a])
           (DockerContentDigest (ex_manifest 1234 ''latest'' []))
         = Some (External ''invalid checksum digest format''))
   \<and> hostsLoop (ex_env net_bad_header [host_a]) ex_ref (ex_base [host_a]) [''manifests'', ''v1''] 1 0
        [host_a] ex_init 0
      = (Return (Inl (Wrapped (strconv_Quote (ex_env net_bad_header [host_a])
                                 (DockerContentDigest (ex_manifest 1234 ''latest'' []))
                               @ '' in header not a valid digest'')
                        (External ''invalid checksum digest format''))), 1)
   \<and> (head_answered (ex_env net_unknown_size [host_a]) (ex_base [host_a]) [''manifests'', ''v1''] 1 0
        host_a 0 (ex_manifest (- 1) ''sha256:aaa'' []) 1
      \<and> ContentLength (ex_manifest (- 1) ''sha256:aaa'' []) = - 1
      \<and> get_answered (ex_env net_unknown_size [host_a])
           (withRewritesFromHost (ex_env net_unknown_size [host_a]) (ex_base [host_a]) host_a)
           host_a [''manifests'', ''v1''] 1 (ex_manifest 3 ''sha256:aaa'' ''xyz'') 2
      \<and> getManifestMediaType (ex_env net_unknown_size [host_a]) (ex_manifest 3 ''sha256:aaa'' ''xyz'')
         \<noteq> MediaTypeDockerSchema1Manifest (ex_env net_unknown_size [host_a])
      \<and> Body (ex_manifest 3 ''sha256:aaa'' ''xyz'') = Inr ''xyz'')
   \<and> acquire (ex_env net_unknown_size [host_a]) 1
        (withRewritesFromHost (ex_env net_unknown_size [host_a]) (ex_base [host_a]) host_a)
        host_a [''manifests'', ''v1''] [] (ex_manifest (- 1) ''sha256:aaa'' [])
      = (Inr (digest_FromReader (ex_env net_unknown_size [host_a]) ''xyz'',
              getManifestMediaType (ex_env net_unknown_size [host_a])
                (ex_manifest 3 ''sha256:aaa'' ''xyz''),
              int (length ''xyz'')), 2)"
proof -
  have a1: "head_answered (ex_env net_happy [host_a]) (ex_base [host_a]) [''manifests'', ''v1''] 1 0
        host_a 0 (ex_manifest 1234 ''sha256:abc'' []) 1"
    by code_simp
  have a2: "StatusCode (ex_manifest 1234 ''sha256:abc'' []) \<le> 299"
    by code_simp
  have a3: "dgst ex_init = []"
    by code_simp
  have p1: "DockerContentDigest (ex_manifest 1234 ''sha256:abc'' []) \<noteq> []
      \<and> ContentLength (ex_manifest 1234 ''sha256:abc'' []) \<noteq> - 1
      \<and> digest_Validate (ex_env net_happy [host_a])
           (DockerContentDigest (ex_manifest 1234 ''sha256:abc'' [])) = None"
    by code_simp
  have s1: "ContentLength (ex_manifest 1234 ''sha256:abc'' []) \<le> MaxManifestSize"
    by code_simp
  note c1 = tag_digest_acquisition [OF a1 a2 a3, where ref = ex_ref and hs = "[]",
      THEN conjunct1, THEN mp, OF p1, THEN conjunct2, THEN mp, OF s1]
  have b1: "head_answered (ex_env net_bad_header [host_a]) (ex_base [host_a]) [''manifests'', ''v1''] 1 0
        host_a 0 (ex_manifest 1234 ''latest'' []) 1"
    by code_simp
  have b2: "StatusCode (ex_manifest 1234 ''latest'' []) \<le> 299"
    by code_simp
  have p2: "DockerContentDigest (ex_manifest 1234 ''latest'' []) \<noteq> []
      \<and> ContentLength (ex_manifest 1234 ''latest'' []) \<noteq> - 1
      \<and> digest_Validate (ex_env net_bad_header [host_a])
           (DockerContentDigest (ex_manifest 1234 ''latest'' []))
         = Some (External ''invalid checksum digest format'')"
    by code_simp
  note c2 = tag_digest_acquisition [OF b1 b2 a3, where ref = ex_ref and hs = "[]",
      THEN conjunct2, THEN conjunct1, THEN mp, OF p2]
  have d1: "head_answered (ex_env net_unknown_size [host_a]) (ex_base [host_a]) [''manifests'', ''v1''] 1 0
        host_a 0 (ex_manifest (- 1) ''sha256:aaa'' []) 1"
    by code_simp
  have d2: "StatusCode (ex_manifest (- 1) ''sha256:aaa'' []) \<le> 299"
    by code_simp
  have p3: "ContentLength (ex_manifest (- 1) ''sha256:aaa'' []) = - 1"
    by code_simp
  have p3': "DockerContentDigest (ex_manifest (- 1) ''sha256:aaa'' []) = []
      \<or> ContentLength (ex_manifest (- 1) ''sha256:aaa'' []) = - 1"
    using p3 by (rule disjI2)
  have g: "get_answered (ex_env net_unknown_size [host_a])
           (withRewritesFromHost (ex_env net_unknown_size [host_a]) (ex_base [host_a]) host_a)
           host_a [''manifests'', ''v1''] 1 (ex_manifest 3 ''sha256:aaa'' ''xyz'') 2
      \<and> getManifestMediaType (ex_env net_unknown_size [host_a]) (ex_manifest 3 ''sha256:aaa'' ''xyz'')
         \<noteq> MediaTypeDockerSchema1Manifest (ex_env net_unknown_size [host_a])
      \<and> Body (ex_manifest 3 ''sha256:aaa'' ''xyz'') = Inr ''xyz''"
    by code_simp
  note c3 = tag_digest_acquisition [OF d1 d2 a3,
      THEN conjunct2, THEN conjunct2, THEN mp, OF p3',
      THEN conjunct2, THEN conjunct2, THEN mp, OF g]
  from a1 a2 a3 p1 s1 have h1: "head_answered (ex_env net_happy [host_a]) (ex_base [host_a]) [''manifests'', ''v1''] 1 0
        host_a 0 (ex_manifest 1234 ''sha256:abc'' []) 1
      \<and> StatusCode (ex_manifest 1234 ''sha256:abc'' []) \<le> 299
      \<and> dgst ex_init = []
      \<and> DockerContentDigest (ex_manifest 1234 ''sha256:abc'' []) \<noteq> []
      \<and> ContentLength (ex_manifest 1234 ''sha256:abc'' []) \<noteq> - 1
      \<and> digest_Validate (ex_env net_happy [host_a])
           (DockerContentDigest (ex_manifest 1234 ''sha256:abc'' [])) = None
      \<and> ContentLength (ex_manifest 1234 ''sha256:abc'' []) \<le> MaxManifestSize"
    by blast
  from b1 p2 have h2: "head_answered (ex_env net_bad_header [host_a]) (ex_base [host_a]) [''manifests'', ''v1''] 1 0
        host_a 0 (ex_manifest 1234 ''latest'' []) 1
      \<and> DockerContentDigest (ex_manifest 1234 ''latest'' []) \<noteq> []
      \<and> ContentLength (ex_manifest 1234 ''latest'' []) \<noteq> - 1
      \<and> digest_Validate (ex_env net_bad_header [host_a])
           (DockerContentDigest (ex_manifest 1234 ''latest'' []))
         = Some (External ''invalid checksum digest format'')"
    by blast
  from d1 p3 g have h3: "head_answered (ex_env net_unknown_size [host_a]) (ex_base [host_a]) [''manifests'', ''v1''] 1 0
        host_a 0 (ex_manifest (- 1) ''sha256:aaa'' []) 1
      \<and> ContentLength (ex_manifest (- 1) ''sha256:aaa'' []) = - 1
      \<and> get_answered (ex_env net_unknown_size [host_a])
           (withRewritesFromHost (ex_env net_unknown_size [host_a]) (ex_base [host_a]) host_a)
           host_a [''manifests'', ''v1''] 1 (ex_manifest 3 ''sha256:aaa'' ''xyz'') 2
      \<and> getManifestMediaType (ex_env net_unknown_size [host_a]) (ex_manifest 3 ''sha256:aaa'' ''xyz'')
         \<noteq> MediaTypeDockerSchema1Manifest (ex_env net_unknown_size [host_a])
      \<and> Body (ex_manifest 3 ''sha256:aaa'' ''xyz'') = Inr ''xyz''"
    by blast
  show ?thesis
    by (rule conjI [OF h1 conjI [OF c1 conjI [OF h2 conjI [OF c2 conjI [OF h3 c3]]]]])
qed

text \<open>
  The variable \<open>dgst\<close> lives across the passes of the loop. A digest taken from the
  header of a host whose manifest is then rejected for its size stays in place for the
  next host: the header of that host is not read, and the descriptor returned has the
  digest of the first host with the size of the second.
\<close>

lemma Resolve_stale_digest:
  "Resolve (ex_env net_oversized_then_small [host_a, host_b]) 0 ex_ref
     = (Inr (ex_ref, \<lparr>Digest = ''sha256:aaa'',
                      MediaType = ''application/vnd.oci.image.manifest.v1+json'',
                      Size = 100\<rparr>), 2)"
  by code_simp

section \<open>Schema 1 manifests\<close>

lemma pathsLoop_Cons_Return:
  "hostsLoop E ref b u (length hs) 0 hs st t = (Return res, t')
     \<Longrightarrow> pathsLoop E ref b hs (u # us) st t = (Return res, t')"
  by simp

text \<open>
  C8. \<open>Resolve\<close> has entered its loops and has gone through the paths \<open>us1\<close> and, for the
  path \<open>u\<close>, through the hosts \<open>hs1\<close> without a return. The pass for the host \<open>h\<close> arrives at
  the computation of the digest from the GET response: its HEAD request is answered
  with a status up to 299, no digest is known, and the digest header is absent or the
  length is \<open>-1\<close>. If the media type of the GET response, with its parameters cut and
  \<open>text/plain\<close> replaced, is the schema 1 manifest type, \<open>Resolve\<close> returns the
  not-implemented error whose message asks to rebuild the image, at the moment the GET
  is answered: the hosts \<open>hs2\<close> and the paths \<open>us2\<close> that are left are not tried.
\<close>

theorem schema1_stops_Resolve:
  assumes "enters_loops E ref b us hs"
    and "us = us1 @ u # us2" and "hs = hs1 @ h # hs2"
    and "pathsLoop E ref b hs us1 (initial (Spec_Digest E (refspec b))) t0 = (Continue st1, ta)"
    and "hostsLoop E ref b u (length hs) 0 hs1 st1 ta = (Continue st, t)"
    and "head_answered E b u (length hs) (length hs1) h t resp t1" and "StatusCode resp \<le> 299"
    and "dgst st = []"
    and "DockerContentDigest resp = [] \<or> ContentLength resp = - 1"
    and "get_answered E (withRewritesFromHost E b h) h u t1 resp2 t2"
    and "getManifestMediaType E resp2 = MediaTypeDockerSchema1Manifest E"
  shows "Resolve E t0 ref = (Inl (schema1_error E), t2)
         \<and> errors_Is (schema1_error E) ErrNotImplemented"
proof -
  from assms(8,9) have "acquire E t1 (withRewritesFromHost E b h) h u (dgst st) resp
      = fetchManifest E t1 (withRewritesFromHost E b h) h u []"
    by (auto simp add: acquire_def Let_def)
  with assms(7,11) have at: "attempt E ref b u (length hs) (length hs1) h st t
      = (Return (Inl (schema1_error E)), t2)"
    by (simp add: attempt_head_answered [OF assms(6)] fetchManifest_get_answered [OF assms(10)])
  have hl: "hostsLoop E ref b u (length hs) 0 (hs1 @ h # hs2) st1 ta
      = (Return (Inl (schema1_error E)), t2)"
    by (simp add: hostsLoop_append assms(5) at)
  have pl: "pathsLoop E ref b hs (us1 @ u # us2) (initial (Spec_Digest E (refspec b))) t0
      = (Return (Inl (schema1_error E)), t2)"
    using hl by (simp add: pathsLoop_append assms(4) assms(3) [symmetric])
  have "Resolve E t0 ref = (Inl (schema1_error E), t2)"
    using pl by (simp add: Resolve_enters_loops [OF assms(1)] assms(2) [symmetric])
  moreover have "errors_Is (schema1_error E) ErrNotImplemented"
    by (simp add: schema1_error_def)
  ultimately show ?thesis by simp
qed

text \<open>
  Three hosts in a row: \<open>b.example\<close> answers 404, \<open>a.example\<close> serves \<open>text/plain\<close>, and
  the third is not asked: \<open>Resolve\<close> returns after three requests.
\<close>

theorem schema1_stops_Resolve_witness:
  "(enters_loops (ex_env net_404_schema1 [host_b, host_a, host_b]) ex_ref
       (ex_base [host_b, host_a, host_b]) [[''manifests'', ''v1'']] [host_b, host_a, host_b]
     \<and> [[''manifests'', ''v1'']] = [] @ [''manifests'', ''v1''] # []
     \<and> [host_b, host_a, host_b] = [host_b] @ host_a # [host_b]
     \<and> pathsLoop (ex_env net_404_schema1 [host_b, host_a, host_b]) ex_ref
          (ex_base [host_b, host_a, host_b]) [host_b, host_a, host_b] []
          (initial (Spec_Digest (ex_env net_404_schema1 [host_b, host_a, host_b])
                      (refspec (ex_base [host_b, host_a, host_b])))) 0
        = (Continue ex_init, 0)
     \<and> hostsLoop (ex_env net_404_schema1 [host_b, host_a, host_b]) ex_ref
          (ex_base [host_b, host_a, host_b]) [''manifests'', ''v1'']
          (length [host_b, host_a, host_b]) 0 [host_b] ex_init 0
        = (Continue \<lparr>firstErr = Some (Wrapped ex_ref ErrNotFound), firstErrPriority = 2, dgst = [],
                     ranked = [(2, Wrapped ex_ref ErrNotFound)]\<rparr>, 1)
     \<and> head_answered (ex_env net_404_schema1 [host_b, host_a, host_b])
          (ex_base [host_b, host_a, host_b]) [''manifests'', ''v1'']
          (length [host_b, host_a, host_b]) (length [host_b]) host_a 1 ex_plain 2
     \<and> StatusCode ex_plain \<le> 299
     \<and> dgst \<lparr>firstErr = Some (Wrapped ex_ref ErrNotFound), firstErrPriority = 2, dgst = [],
              ranked = [(2, Wrapped ex_ref ErrNotFound)]\<rparr> = []
     \<and> (DockerContentDigest ex_plain = [] \<or> ContentLength ex_plain = - 1)
     \<and> get_answered (ex_env net_404_schema1 [host_b, host_a, host_b])
          (withRewritesFromHost (ex_env net_404_schema1 [host_b, host_a, host_b])
             (ex_base [host_b, host_a, host_b]) host_a)
          host_a [''manifests'', ''v1''] 2 ex_plain 3
     \<and> getManifestMediaType (ex_env net_404_schema1 [host_b, host_a, host_b]) ex_plain
        = MediaTypeDockerSchema1Manifest (ex_env net_404_schema1 [host_b, host_a, host_b]))
   \<and> (Resolve (ex_env net_404_schema1 [host_b, host_a, host_b]) 0 ex_ref
        = (Inl (schema1_error (ex_env net_404_schema1 [host_b, host_a, host_b])), 3)
      \<and> errors_Is (schema1_error (ex_env net_404_schema1 [host_b, host_a, host_b]))
           ErrNotImplemented)"
proof -
  note a1 = ex_enters_loops_bab [of net_404_schema1]
  have a2: "[[''manifests'', ''v1'']] = [] @ [''manifests'', ''v1''] # []"
    by simp
  have a3: "[host_b, host_a, host_b] = [host_b] @ host_a # [host_b]"
    by simp
  have a4: "pathsLoop (ex_env net_404_schema1 [host_b, host_a, host_b]) ex_ref
          (ex_base [host_b, host_a, host_b]) [host_b, host_a, host_b] []
          (initial (Spec_Digest (ex_env net_404_schema1 [host_b, host_a, host_b])
                      (refspec (ex_base [host_b, host_a, host_b])))) 0
        = (Continue ex_init, 0)"
    by code_simp
  have a5: "hostsLoop (ex_env net_404_schema1 [host_b, host_a, host_b]) ex_ref
          (ex_base [host_b, host_a, host_b]) [''manifests'', ''v1'']
          (length [host_b, host_a, host_b]) 0 [host_b] ex_init 0
        = (Continue \<lparr>firstErr = Some (Wrapped ex_ref ErrNotFound), firstErrPriority = 2, dgst = [],
                     ranked = [(2, Wrapped ex_ref ErrNotFound)]\<rparr>, 1)"
    by code_simp
  have a6: "head_answered (ex_env net_404_schema1 [host_b, host_a, host_b])
          (ex_base [host_b, host_a, host_b]) [''manifests'', ''v1'']
          (length [host_b, host_a, host_b]) (length [host_b]) host_a 1 ex_plain 2"
    by code_simp
  have a7: "StatusCode ex_plain \<le> 299"
    by code_simp
  have a8: "dgst \<lparr>firstErr = Some (Wrapped ex_ref ErrNotFound), firstErrPriority = 2, dgst = [],
              ranked = [(2, Wrapped ex_ref ErrNotFound)]\<rparr> = []"
    by simp
  have a9: "DockerContentDigest ex_plain = [] \<or> ContentLength ex_plain = - 1"
    by code_simp
  have a10: "get_answered (ex_env net_404_schema1 [host_b, host_a, host_b])
          (withRewritesFromHost (ex_env net_404_schema1 [host_b, host_a, host_b])
             (ex_base [host_b, host_a, host_b]) host_a)
          host_a [''manifests'', ''v1''] 2 ex_plain 3"
    by code_simp
  have a11: "getManifestMediaType (ex_env net_404_schema1 [host_b, host_a, host_b]) ex_plain
        = MediaTypeDockerSchema1Manifest (ex_env net_404_schema1 [host_b, host_a, host_b])"
    by code_simp
  note c = schema1_stops_Resolve [OF a1 a2 a3 a4 a5 a6 a7 a8 a9 a10 a11]
  show ?thesis
    by (rule conjI [OF conjI [OF a1 conjI [OF a2 conjI [OF a3 conjI [OF a4 conjI [OF a5
          conjI [OF a6 conjI [OF a7 conjI [OF a8 conjI [OF a9 conjI [OF a10 a11]]]]]]]]]] c])
qed

text \<open>
  The error with its message written out, and the same hosts in the other order, where
  \<open>Resolve\<close> succeeds with the first host.
\<close>

lemma Resolve_schema1_message:
  "Resolve (ex_env net_schema1 [host_a, host_b]) 0 ex_ref
     = (Inl (Wrapped ('': media type '' @ [CHR 0x22]
               @ ''application/vnd.docker.distribution.manifest.v1+prettyjws'' @ [CHR 0x22]
               @ '' is no longer supported since containerd v2.0, please rebuild the image as ''
               @ [CHR 0x22] @ ''application/vnd.docker.distribution.manifest.v2+json'' @ [CHR 0x22]
               @ '' or '' @ [CHR 0x22] @ ''application/vnd.oci.image.manifest.v1+json'' @ [CHR 0x22])
             ErrNotImplemented), 2)
   \<and> Resolve (ex_env net_schema1 [host_b, host_a]) 0 ex_ref
     = (Inr (ex_ref, \<lparr>Digest = ''sha256:abc'',
                      MediaType = ''application/vnd.oci.image.manifest.v1+json'',
                      Size = 1234\<rparr>), 1)"
  by code_simp

section \<open>A 401 response without authorizer\<close>

text \<open>
  C10, as the claim states it, fails when an error of priority 3 or higher is recorded
  already. The host \<open>a.example\<close> answers 500 and \<open>b.example\<close>, which has no authorizer,
  answers 401. The 401 response comes back from the retry engine, but the pass for
  \<open>b.example\<close> leaves the recorded error as it is: it is the error of the 500, which is
  what \<open>Resolve\<close> returns, and the 401 is recorded nowhere.
\<close>

theorem unauthorized_not_recorded_counterexample:
  "Authorizer host_b = None
   \<and> head_answered (ex_env net_500_401 [host_a, host_b]) (ex_base [host_a, host_b])
        [''manifests'', ''v1''] 2 1 host_b 1 (ex_status 401) 2
   \<and> fst (attempt (ex_env net_500_401 [host_a, host_b]) ex_ref (ex_base [host_a, host_b])
        [''manifests'', ''v1''] 2 1 host_b
        \<lparr>firstErr = Some (ErrUnexpectedStatus 500 []), firstErrPriority = 3, dgst = [],
         ranked = [(3, ErrUnexpectedStatus 500 [])]\<rparr> 1)
      = Continue \<lparr>firstErr = Some (ErrUnexpectedStatus 500 []), firstErrPriority = 3, dgst = [],
          ranked = [(3, ErrUnexpectedStatus 500 []), (3, ErrUnexpectedStatus 401 [])]\<rparr>
   \<and> Resolve (ex_env net_500_401 [host_a, host_b]) 0 ex_ref
      = (Inl (ErrUnexpectedStatus 500 []), 2)"
  by code_simp

text \<open>
  The GET request of the GET block is another request of \<open>Resolve\<close>. Its status is not
  looked at: when it is answered 401, the body of that response is measured and
  hashed, and \<open>Resolve\<close> returns a descriptor for it.
\<close>

lemma Resolve_get_401:
  "Resolve (ex_env net_get_401 [host_a]) 0 ex_ref
     = (Inr (ex_ref, \<lparr>Digest = ex_FromReader ''denied'', MediaType = ''application/json'',
                      Size = 6\<rparr>), 2)"
  by code_simp

text \<open>
  C10, as the code has it. For a request to a host without authorizer, a 401 response
  ends the retry engine without error: \<open>retryRequest\<close> answers no retry and no error,
  and \<open>doWithRetriesInner\<close> returns the response itself. When this is the response to the
  HEAD request of a pair, the loop goes on with the next host and puts the
  unexpected-status error of the response forward with priority 3; it becomes the
  recorded error unless an error of priority 3 or 4 is recorded already. No
  authorization error is made.
\<close>

theorem unauthorized_without_authorizer:
  "(Authorizer (host r) = None \<and> do E t r = Inr resp \<and> StatusCode resp = 401
      \<longrightarrow> retryRequest (Suc t) r (responses @ [resp]) lastHost = (False, None, r)
          \<and> doWithRetriesInner E t r responses lastHost = (Inr resp, Suc t))
   \<and> (head_answered E b u n i h t0 resp t1 \<and> StatusCode resp = 401
      \<longrightarrow> hostsLoop E ref b u n i (h # hs) st t0 =
            hostsLoop E ref b u n (Suc i) hs (put_forward 3 (unexpectedResponseErr resp) st) t1)"
proof (intro conjI impI)
  assume a: "Authorizer (host r) = None \<and> do E t r = Inr resp \<and> StatusCode resp = 401"
  then show rr: "retryRequest (Suc t) r (responses @ [resp]) lastHost = (False, None, r)"
    by (simp add: retryRequest_def Let_def)
  from a show "doWithRetriesInner E t r responses lastHost = (Inr resp, Suc t)"
    by (simp add: doWithRetriesInner.simps [of E t r] rr)
next
  assume a: "head_answered E b u n i h t0 resp t1 \<and> StatusCode resp = 401"
  then have ha: "head_answered E b u n i h t0 resp t1" by simp
  from a show "hostsLoop E ref b u n i (h # hs) st t0 =
            hostsLoop E ref b u n (Suc i) hs (put_forward 3 (unexpectedResponseErr resp) st) t1"
    by (simp add: attempt_head_answered [OF ha])
qed

theorem unauthorized_without_authorizer_witness:
  "(Authorizer (host ex_head) = None
      \<and> do (ex_env (net_always 401) [host_a]) 0 ex_head = Inr (ex_status 401)
      \<and> StatusCode (ex_status 401) = 401)
   \<and> (retryRequest (Suc 0) ex_head ([] @ [ex_status 401]) True = (False, None, ex_head)
      \<and> doWithRetriesInner (ex_env (net_always 401) [host_a]) 0 ex_head [] True
         = (Inr (ex_status 401), Suc 0))
   \<and> (head_answered (ex_env (net_always 401) [host_a]) (ex_base [host_a])
         [''manifests'', ''v1''] 1 0 host_a 0 (ex_status 401) 1
      \<and> StatusCode (ex_status 401) = 401)
   \<and> hostsLoop (ex_env (net_always 401) [host_a]) ex_ref (ex_base [host_a])
        [''manifests'', ''v1''] 1 0 [host_a] ex_init 0
      = hostsLoop (ex_env (net_always 401) [host_a]) ex_ref (ex_base [host_a])
        [''manifests'', ''v1''] 1 (Suc 0) []
        (put_forward 3 (unexpectedResponseErr (ex_status 401)) ex_init) 1
   \<and> Resolve (ex_env (net_always 401) [host_a]) 0 ex_ref = (Inl (ErrUnexpectedStatus 401 []), 1)"
proof -
  have f1: "Authorizer (host ex_head) = None
      \<and> do (ex_env (net_always 401) [host_a]) 0 ex_head = Inr (ex_status 401)
      \<and> StatusCode (ex_status 401) = 401"
    by code_simp
  have f2: "head_answered (ex_env (net_always 401) [host_a]) (ex_base [host_a])
         [''manifests'', ''v1''] 1 0 host_a 0 (ex_status 401) 1
      \<and> StatusCode (ex_status 401) = 401"
    by code_simp
  note c1 = unauthorized_without_authorizer [where responses = "[]" and lastHost = True,
      THEN conjunct1, THEN mp, OF f1]
  note c2 = unauthorized_without_authorizer [where ref = ex_ref and hs = "[]" and st = ex_init,
      THEN conjunct2, THEN mp, OF f2]
  have r: "Resolve (ex_env (net_always 401) [host_a]) 0 ex_ref = (Inl (ErrUnexpectedStatus 401 []), 1)"
    by code_simp
  show ?thesis
    by (rule conjI [OF f1 conjI [OF c1 conjI [OF f2 conjI [OF c2 r]]]])
qed

end
